theory Spec2Isabelle
  imports Complex_Main
begin

section \<open>Strings and character classes\<close>

text \<open>
  An ECMAScript string is a sequence of UTF-16 code units. The model writes strings as
  \<^typ>\<open>string\<close>, whose characters are the code units below 256. The character classes
  \<open>\s\<close> and \<open>\w\<close> below are the ECMAScript classes on these code units. Case conversion
  is the Unicode mapping on ASCII text only, and what is proved of it is proved of ASCII
  text. The zero-width characters U+200B..U+200D and U+FEFF are not in this alphabet.
\<close>

definition code :: "char \<Rightarrow> nat" where
  "code c = of_char c"

definition dquote :: char where "dquote = CHR 0x22"
definition squote :: char where "squote = CHR 0x27"
definition backslash :: char where "backslash = CHR 0x5C"
definition newline :: char where "newline = CHR 0x0A"
definition creturn :: char where "creturn = CHR 0x0D"
definition tab :: char where "tab = CHR 0x09"

text \<open>The regular-expression class \<open>\s\<close>, which is also what \<open>String.prototype.trim\<close>
  removes: tab, line feed, vertical tab, form feed, carriage return, space and the
  no-break space U+00A0. The other members of the class are code units from U+1680 on.\<close>

definition isSpace :: "char \<Rightarrow> bool" where
  "isSpace c \<longleftrightarrow> (9 \<le> code c \<and> code c \<le> 13) \<or> code c = 32 \<or> code c = 160"

text \<open>ASCII text.\<close>

definition isAscii :: "string \<Rightarrow> bool" where
  "isAscii s \<longleftrightarrow> (\<forall>c \<in> set s. code c < 128)"

definition isDigit :: "char \<Rightarrow> bool" where
  "isDigit c \<longleftrightarrow> 48 \<le> code c \<and> code c \<le> 57"

definition isUpper :: "char \<Rightarrow> bool" where
  "isUpper c \<longleftrightarrow> 65 \<le> code c \<and> code c \<le> 90"

definition isLower :: "char \<Rightarrow> bool" where
  "isLower c \<longleftrightarrow> 97 \<le> code c \<and> code c \<le> 122"

text \<open>The regular-expression class \<open>\w\<close>: letters, digits and the underscore.\<close>

definition isWord :: "char \<Rightarrow> bool" where
  "isWord c \<longleftrightarrow> isUpper c \<or> isLower c \<or> isDigit c \<or> c = CHR ''_''"

text \<open>\<open>toUpperCase\<close> and \<open>toLowerCase\<close> on ASCII text: the 26 letters change case and
  every other ASCII character stays.\<close>

definition upperChar :: "char \<Rightarrow> char" where
  "upperChar c = (if isLower c then char_of (code c - 32) else c)"

definition lowerChar :: "char \<Rightarrow> char" where
  "lowerChar c = (if isUpper c then char_of (code c + 32) else c)"

definition toUpperCase :: "string \<Rightarrow> string" where
  "toUpperCase s = map upperChar s"

definition toLowerCase :: "string \<Rightarrow> string" where
  "toLowerCase s = map lowerChar s"

text \<open>\<open>String.prototype.trim\<close>, and the first repair \<open>replace(/^\s*|\s*$/g, '')\<close>, which
  removes the leading and the trailing run of \<open>\s\<close>.\<close>

definition trim :: "string \<Rightarrow> string" where
  "trim s = rev (dropWhile isSpace (rev (dropWhile isSpace s)))"

text \<open>\<open>String.prototype.includes\<close>: the argument occurs as a contiguous substring.\<close>

fun startsWith :: "string \<Rightarrow> string \<Rightarrow> bool" where
  "startsWith s [] = True"
| "startsWith [] (p # ps) = False"
| "startsWith (c # cs) (p # ps) = (c = p \<and> startsWith cs ps)"

fun str_includes :: "string \<Rightarrow> string \<Rightarrow> bool" where
  "str_includes [] p = (p = [])"
| "str_includes (c # cs) p = (startsWith (c # cs) p \<or> str_includes cs p)"

text \<open>\<open>Array.prototype.join\<close> on strings.\<close>

fun join :: "string \<Rightarrow> string list \<Rightarrow> string" where
  "join sep [] = []"
| "join sep [x] = x"
| "join sep (x # y # ys) = x @ sep @ join sep (y # ys)"

section \<open>JSON values and the built-in \<open>JSON.parse\<close>\<close>

text \<open>
  The values \<open>JSON.parse\<close> returns. An object keeps its members in insertion order; a
  number is its exact value (IEEE rounding is not modelled).
\<close>

datatype json =
    JNull
  | JBool bool
  | JNum real
  | JStr string
  | JArr "json list"
  | JObj "(string \<times> json) list"

text \<open>The exceptions of the program: the constructor is the class, the argument the
  message. All are instances of \<open>Error\<close>.\<close>

datatype js_error =
    Error string
  | TypeError string
  | SyntaxError string
  | URIError string

fun message :: "js_error \<Rightarrow> string" where
  "message (Error m) = m"
| "message (TypeError m) = m"
| "message (SyntaxError m) = m"
| "message (URIError m) = m"

datatype token =
    TLBrace | TRBrace | TLBrack | TRBrack | TColon | TComma
  | TStr string | TNum real | TTrue | TFalse | TNull

definition isJsonWs :: "char \<Rightarrow> bool" where
  "isJsonWs c \<longleftrightarrow> c = CHR '' '' \<or> c = tab \<or> c = newline \<or> c = creturn"

definition hexVal :: "char \<Rightarrow> nat option" where
  "hexVal c =
     (if isDigit c then Some (code c - 48)
      else if 97 \<le> code c \<and> code c \<le> 102 then Some (code c - 87)
      else if 65 \<le> code c \<and> code c \<le> 70 then Some (code c - 55)
      else None)"

definition hex4 :: "char \<Rightarrow> char \<Rightarrow> char \<Rightarrow> char \<Rightarrow> nat option" where
  "hex4 a b c d =
     (case (hexVal a, hexVal b, hexVal c, hexVal d) of
        (Some w, Some x, Some y, Some z) \<Rightarrow> Some (((w * 16 + x) * 16 + y) * 16 + z)
      | _ \<Rightarrow> None)"

text \<open>The single-character escapes of a JSON string.\<close>

definition unescape :: "char \<Rightarrow> char option" where
  "unescape e =
     (if e = dquote then Some dquote
      else if e = backslash then Some backslash
      else if e = CHR ''/'' then Some (CHR ''/'')
      else if e = CHR ''b'' then Some (CHR 0x08)
      else if e = CHR ''f'' then Some (CHR 0x0C)
      else if e = CHR ''n'' then Some newline
      else if e = CHR ''r'' then Some creturn
      else if e = CHR ''t'' then Some tab
      else None)"

text \<open>
  \<open>lexString cs\<close> reads a string body after its opening quote and returns the decoded
  string and the text after the closing quote. A control character below U+0020 is not
  allowed unescaped. An escape \<open>\uXXXX\<close> above U+00FF denotes a code unit outside the
  alphabet of the model and is refused here.
\<close>

fun lexString :: "string \<Rightarrow> (string \<times> string) option" where
  "lexString [] = None"
| "lexString (c # cs) =
     (if c = dquote then Some ([], cs)
      else if c = backslash then
        (case cs of
           [] \<Rightarrow> None
         | e # cs' \<Rightarrow>
             if e = CHR ''u'' then
               (case cs' of
                  h1 # h2 # h3 # h4 # cs'' \<Rightarrow>
                    (case hex4 h1 h2 h3 h4 of
                       None \<Rightarrow> None
                     | Some n \<Rightarrow>
                         if n < 256
                         then map_option (\<lambda>(s, r). (char_of n # s, r)) (lexString cs'')
                         else None)
                | _ \<Rightarrow> None)
             else
               (case unescape e of
                  None \<Rightarrow> None
                | Some d \<Rightarrow> map_option (\<lambda>(s, r). (d # s, r)) (lexString cs')))
      else if code c < 32 then None
      else map_option (\<lambda>(s, r). (c # s, r)) (lexString cs))"

definition natOfDigits :: "string \<Rightarrow> nat" where
  "natOfDigits ds = foldl (\<lambda>n c. 10 * n + (code c - 48)) 0 ds"

text \<open>
  A number is \<open>-? (0 | [1-9][0-9]*) (. [0-9]+)? ([eE] [+-]? [0-9]+)?\<close>. Each part is read
  from the front of the text and returns its value and the rest.
\<close>

definition lexInt :: "string \<Rightarrow> (nat \<times> string) option" where
  "lexInt cs =
     (let ip = takeWhile isDigit cs
      in if ip = [] \<or> (hd ip = CHR ''0'' \<and> length ip > 1) then None
         else Some (natOfDigits ip, dropWhile isDigit cs))"

definition lexFrac :: "string \<Rightarrow> (real \<times> string) option" where
  "lexFrac cs =
     (case cs of
        [] \<Rightarrow> Some (0, cs)
      | d # r \<Rightarrow>
          if d = CHR ''.'' then
            (let fd = takeWhile isDigit r
             in if fd = [] then None
                else Some (real (natOfDigits fd) / 10 ^ length fd, dropWhile isDigit r))
          else Some (0, cs))"

definition lexExpDigits :: "bool \<Rightarrow> string \<Rightarrow> ((bool \<times> nat) \<times> string) option" where
  "lexExpDigits neg cs =
     (let ed = takeWhile isDigit cs
      in if ed = [] then None else Some ((neg, natOfDigits ed), dropWhile isDigit cs))"

definition lexExp :: "string \<Rightarrow> ((bool \<times> nat) \<times> string) option" where
  "lexExp cs =
     (case cs of
        [] \<Rightarrow> Some ((False, 0), cs)
      | e # r \<Rightarrow>
          if e = CHR ''e'' \<or> e = CHR ''E'' then
            (case r of
               [] \<Rightarrow> None
             | sg # r' \<Rightarrow>
                 if sg = CHR ''-'' then lexExpDigits True r'
                 else if sg = CHR ''+'' then lexExpDigits False r'
                 else lexExpDigits False r)
          else Some ((False, 0), cs))"

definition lexUnsigned :: "string \<Rightarrow> (real \<times> string) option" where
  "lexUnsigned cs =
     (case lexInt cs of
        None \<Rightarrow> None
      | Some (i, cs2) \<Rightarrow>
          (case lexFrac cs2 of
             None \<Rightarrow> None
           | Some (f, cs3) \<Rightarrow>
               (case lexExp cs3 of
                  None \<Rightarrow> None
                | Some ((eneg, e), cs4) \<Rightarrow>
                    Some (if eneg then (real i + f) / 10 ^ e else (real i + f) * 10 ^ e, cs4))))"

definition lexNumber :: "string \<Rightarrow> (real \<times> string) option" where
  "lexNumber cs =
     (case cs of
        [] \<Rightarrow> None
      | c # r \<Rightarrow>
          if c = CHR ''-'' then map_option (\<lambda>(x, r'). (- x, r')) (lexUnsigned r)
          else lexUnsigned cs)"

lemma lexString_length:
  "lexString cs = Some (s, r) \<Longrightarrow> length r < Suc (length cs)"
proof (induction cs arbitrary: s r rule: lexString.induct)
  case 1
  then show ?case by simp
next
  case (2 c cs)
  show ?case
  proof (cases "c = dquote")
    case True
    with "2.prems" show ?thesis by simp
  next
    case notq: False
    show ?thesis
    proof (cases "c = backslash")
      case False
      with notq "2.prems" "2.IH"(3) show ?thesis
        by (fastforce split: if_splits)
    next
      case bs: True
      show ?thesis
      proof (cases cs)
        case Nil
        with notq bs "2.prems" show ?thesis by simp
      next
        case (Cons e cs')
        show ?thesis
        proof (cases "e = CHR ''u''")
          case False
          with notq bs Cons "2.prems" "2.IH"(2) show ?thesis
            by (fastforce split: option.splits)
        next
          case True
          with notq bs Cons "2.prems" "2.IH"(1) show ?thesis
            by (fastforce split: list.splits option.splits if_splits)
        qed
      qed
    qed
  qed
qed

lemma length_dropWhile_takeWhile:
  "takeWhile P xs \<noteq> [] \<Longrightarrow> length (dropWhile P xs) < length xs"
  by (cases xs) (auto simp: less_Suc_eq_le length_dropWhile_le split: if_splits)

lemma lexInt_length: "lexInt cs = Some (i, r) \<Longrightarrow> length r < length cs"
  by (auto simp: lexInt_def Let_def length_dropWhile_takeWhile split: if_splits)

lemma lexFrac_length: "lexFrac cs = Some (f, r) \<Longrightarrow> length r \<le> length cs"
  by (auto simp: lexFrac_def Let_def le_SucI length_dropWhile_le split: list.splits if_splits)

lemma lexExpDigits_length: "lexExpDigits b cs = Some (e, r) \<Longrightarrow> length r \<le> length cs"
  by (auto simp: lexExpDigits_def Let_def length_dropWhile_le split: if_splits)

lemma lexExp_length: "lexExp cs = Some (e, r) \<Longrightarrow> length r \<le> length cs"
  by (auto simp: lexExp_def le_SucI split: list.splits if_splits
           dest!: lexExpDigits_length)

lemma lexUnsigned_length:
  assumes "lexUnsigned cs = Some (x, r)"
  shows "length r < length cs"
proof -
  from assms obtain i cs2 f cs3 e where
    a: "lexInt cs = Some (i, cs2)" and b: "lexFrac cs2 = Some (f, cs3)"
    and c: "lexExp cs3 = Some (e, r)"
    by (auto simp: lexUnsigned_def split: option.splits)
  from lexInt_length [OF a] lexFrac_length [OF b] lexExp_length [OF c]
  show ?thesis by simp
qed

lemma lexNumber_length:
  assumes "lexNumber (c # cs) = Some (x, r)"
  shows "length r < Suc (length cs)"
proof (cases "c = CHR ''-''")
  case True
  with assms obtain y where "lexUnsigned cs = Some (y, r)"
    by (auto simp: lexNumber_def)
  from lexUnsigned_length [OF this] show ?thesis by simp
next
  case False
  with assms have "lexUnsigned (c # cs) = Some (x, r)"
    by (simp add: lexNumber_def)
  from lexUnsigned_length [OF this] show ?thesis by simp
qed

text \<open>The tokens of a JSON text; \<open>None\<close> when some character starts no token.\<close>

function lex :: "string \<Rightarrow> token list option" where
  "lex [] = Some []"
| "lex (c # cs) =
     (if isJsonWs c then lex cs
      else if c = CHR ''{'' then map_option ((#) TLBrace) (lex cs)
      else if c = CHR ''}'' then map_option ((#) TRBrace) (lex cs)
      else if c = CHR ''['' then map_option ((#) TLBrack) (lex cs)
      else if c = CHR '']'' then map_option ((#) TRBrack) (lex cs)
      else if c = CHR '':'' then map_option ((#) TColon) (lex cs)
      else if c = CHR '','' then map_option ((#) TComma) (lex cs)
      else if c = dquote then
        (case lexString cs of
           None \<Rightarrow> None
         | Some (s, r) \<Rightarrow> map_option ((#) (TStr s)) (lex r))
      else if c = CHR ''-'' \<or> isDigit c then
        (case lexNumber (c # cs) of
           None \<Rightarrow> None
         | Some (x, r) \<Rightarrow> map_option ((#) (TNum x)) (lex r))
      else if startsWith (c # cs) ''true'' then map_option ((#) TTrue) (lex (drop 3 cs))
      else if startsWith (c # cs) ''false'' then map_option ((#) TFalse) (lex (drop 4 cs))
      else if startsWith (c # cs) ''null'' then map_option ((#) TNull) (lex (drop 3 cs))
      else None)"
  by pat_completeness auto
termination
  by (relation "measure length") (auto dest: lexString_length lexNumber_length)

text \<open>
  The parser reads the tokens from left to right and keeps the containers that are still
  open on a stack. An open array holds its elements so far, latest first; an open object
  holds its members so far and, between a key and its value, that key.
\<close>

datatype frame =
    FArr "json list"
  | FObj "(string \<times> json) list" "string option"

datatype pstate =
    PValue       \<comment> \<open>a value must follow: start of text, after a colon, after a comma in an array\<close>
  | PArrFirst    \<comment> \<open>after \<open>[\<close>: a value or \<open>]\<close>\<close>
  | PObjFirst    \<comment> \<open>after \<open>{\<close>: a key or \<open>}\<close>\<close>
  | PKey         \<comment> \<open>after a comma in an object: a key\<close>
  | PColon       \<comment> \<open>after a key: a colon\<close>
  | PAfter       \<comment> \<open>after a value inside a container: a comma or the closing bracket\<close>
  | PDone json   \<comment> \<open>the text is one complete value\<close>

text \<open>A member whose key is already there replaces the value in place; a new key goes
  to the end.\<close>

fun putMember :: "string \<Rightarrow> json \<Rightarrow> (string \<times> json) list \<Rightarrow> (string \<times> json) list" where
  "putMember k v [] = [(k, v)]"
| "putMember k v ((k', v') # ms) =
     (if k' = k then (k, v) # ms else (k', v') # putMember k v ms)"

fun complete :: "json \<Rightarrow> frame list \<Rightarrow> (pstate \<times> frame list) option" where
  "complete v [] = Some (PDone v, [])"
| "complete v (FArr xs # st) = Some (PAfter, FArr (v # xs) # st)"
| "complete v (FObj ms (Some k) # st) = Some (PAfter, FObj (putMember k v ms) None # st)"
| "complete v (FObj ms None # st) = None"

fun startValue :: "token \<Rightarrow> frame list \<Rightarrow> (pstate \<times> frame list) option" where
  "startValue TLBrace st = Some (PObjFirst, FObj [] None # st)"
| "startValue TLBrack st = Some (PArrFirst, FArr [] # st)"
| "startValue (TStr s) st = complete (JStr s) st"
| "startValue (TNum x) st = complete (JNum x) st"
| "startValue TTrue st = complete (JBool True) st"
| "startValue TFalse st = complete (JBool False) st"
| "startValue TNull st = complete JNull st"
| "startValue _ st = None"

fun closeArr :: "frame list \<Rightarrow> (pstate \<times> frame list) option" where
  "closeArr (FArr xs # st) = complete (JArr (rev xs)) st"
| "closeArr _ = None"

fun closeObj :: "frame list \<Rightarrow> (pstate \<times> frame list) option" where
  "closeObj (FObj ms None # st) = complete (JObj ms) st"
| "closeObj _ = None"

fun readKey :: "token \<Rightarrow> frame list \<Rightarrow> (pstate \<times> frame list) option" where
  "readKey (TStr k) (FObj ms None # st) = Some (PColon, FObj ms (Some k) # st)"
| "readKey _ _ = None"

fun pstep :: "pstate \<Rightarrow> frame list \<Rightarrow> token \<Rightarrow> (pstate \<times> frame list) option" where
  "pstep PValue st t = startValue t st"
| "pstep PArrFirst st t = (if t = TRBrack then closeArr st else startValue t st)"
| "pstep PObjFirst st t = (if t = TRBrace then closeObj st else readKey t st)"
| "pstep PKey st t = readKey t st"
| "pstep PColon st t = (if t = TColon then Some (PValue, st) else None)"
| "pstep PAfter st t =
     (if t = TComma then
        (case st of
           FArr xs # st' \<Rightarrow> Some (PValue, st)
         | FObj ms k # st' \<Rightarrow> Some (PKey, st)
         | [] \<Rightarrow> None)
      else if t = TRBrack then closeArr st
      else if t = TRBrace then closeObj st
      else None)"
| "pstep (PDone v) st t = None"

fun prun :: "pstate \<Rightarrow> frame list \<Rightarrow> token list \<Rightarrow> json option" where
  "prun q st [] = (case q of PDone v \<Rightarrow> Some v | _ \<Rightarrow> None)"
| "prun q st (t # ts) =
     (case pstep q st t of
        None \<Rightarrow> None
      | Some (q', st') \<Rightarrow> prun q' st' ts)"

text \<open>\<open>JSON.parse\<close>: the value of the text, or a \<open>SyntaxError\<close>. The message of the
  error is chosen by the engine and is not modelled.\<close>

definition JSON_parse :: "string \<Rightarrow> js_error + json" where
  "JSON_parse s =
     (case lex s of
        None \<Rightarrow> Inl (SyntaxError ''Unexpected token in JSON'')
      | Some ts \<Rightarrow>
          (case prun PValue [] ts of
             None \<Rightarrow> Inl (SyntaxError ''Unexpected token in JSON'')
           | Some v \<Rightarrow> Inr v))"

section \<open>The response parser\<close>

text \<open>
  \<open>response.match(/\{[\s\S]*\}/)\<close>: the match starts at the first \<open>{\<close> and, the star being
  greedy, ends at the last \<open>}\<close> after it; there is no match when no \<open>}\<close> follows the
  first \<open>{\<close>.
\<close>

definition jsonMatch :: "string \<Rightarrow> string option" where
  "jsonMatch s =
     (case dropWhile (\<lambda>c. c \<noteq> CHR ''{'') s of
        [] \<Rightarrow> None
      | b # u \<Rightarrow>
          if CHR ''}'' \<in> set u
          then Some (b # rev (dropWhile (\<lambda>c. c \<noteq> CHR ''}'') (rev u)))
          else None)"

subsection \<open>The repairs, one function for each \<open>replace\<close>\<close>

text \<open>\<open>replace(/[\u200B-\u200D\uFEFF]/g, '')\<close>.\<close>

definition isZeroWidth :: "char \<Rightarrow> bool" where
  "isZeroWidth c \<longleftrightarrow>
     (0x200B \<le> int (code c) \<and> int (code c) \<le> 0x200D) \<or> int (code c) = 0xFEFF"

definition stripZeroWidth :: "string \<Rightarrow> string" where
  "stripZeroWidth s = filter (\<lambda>c. \<not> isZeroWidth c) s"

text \<open>
  \<open>replace(/,(\s*[}\]])/g, '$1')\<close>. At a comma, \<open>matchTrailingComma\<close> matches the text
  after it against \<open>\s*[}\]]\<close> and returns group 1 and the text after the match. The scan
  goes on after the match, or after the one character when there is none.
\<close>

definition matchTrailingComma :: "string \<Rightarrow> (string \<times> string) option" where
  "matchTrailingComma cs =
     (case dropWhile isSpace cs of
        [] \<Rightarrow> None
      | b # r \<Rightarrow>
          if b = CHR ''}'' \<or> b = CHR '']'' then Some (takeWhile isSpace cs @ [b], r)
          else None)"

lemma dropWhile_Cons_length: "dropWhile P cs = b # r \<Longrightarrow> length r < length cs"
  using length_dropWhile_le [of P cs] by simp

lemma matchTrailingComma_length:
  "matchTrailingComma cs = Some (g, r) \<Longrightarrow> length r < length cs"
  by (auto simp: matchTrailingComma_def split: list.splits if_splits
           dest: dropWhile_Cons_length)

function removeTrailingCommas :: "string \<Rightarrow> string" where
  "removeTrailingCommas [] = []"
| "removeTrailingCommas (c # cs) =
     (if c = CHR '','' then
        (case matchTrailingComma cs of
           Some (g, r) \<Rightarrow> g @ removeTrailingCommas r
         | None \<Rightarrow> c # removeTrailingCommas cs)
      else c # removeTrailingCommas cs)"
  by pat_completeness auto
termination
  by (relation "measure length") (auto dest: matchTrailingComma_length)

text \<open>
  \<open>replace(/([{,]\s*)(\w+)(\s*:)/g, '$1"$2"$3')\<close>. At a \<open>{\<close> or a comma, \<open>matchKey\<close>
  matches the text after it against \<open>\s*\w+\s*:\<close> and returns the first run of space,
  the word, the second run of space and the text after the colon. The runs are the
  longest ones: a shorter run leaves a character of the same class in front of the next
  part of the pattern, which then fails.
\<close>

definition matchKey :: "string \<Rightarrow> (string \<times> string \<times> string \<times> string) option" where
  "matchKey cs =
     (let r1 = dropWhile isSpace cs;
          w = takeWhile isWord r1;
          r2 = dropWhile isWord r1
      in case dropWhile isSpace r2 of
           [] \<Rightarrow> None
         | d # r \<Rightarrow>
             if w \<noteq> [] \<and> d = CHR '':''
             then Some (takeWhile isSpace cs, w, takeWhile isSpace r2, r)
             else None)"

lemma matchKey_length:
  assumes "matchKey cs = Some (a, w, b, r)"
  shows "length r < length cs"
proof -
  from assms obtain d where
    "dropWhile isSpace (dropWhile isWord (dropWhile isSpace cs)) = d # r"
    by (auto simp: matchKey_def Let_def split: list.splits if_splits)
  from dropWhile_Cons_length [OF this]
    length_dropWhile_le [of isWord "dropWhile isSpace cs"]
    length_dropWhile_le [of isSpace cs]
  show ?thesis by simp
qed

function quoteKeys :: "string \<Rightarrow> string" where
  "quoteKeys [] = []"
| "quoteKeys (c # cs) =
     (if c = CHR ''{'' \<or> c = CHR '','' then
        (case matchKey cs of
           Some (a, w, b, r) \<Rightarrow>
             c # a @ [dquote] @ w @ [dquote] @ b @ CHR '':'' # quoteKeys r
         | None \<Rightarrow> c # quoteKeys cs)
      else c # quoteKeys cs)"
  by pat_completeness auto
termination
  by (relation "measure length") (auto dest: matchKey_length)

text \<open>
  \<open>replace(/:\s*'([^']*)'/g, ':"$1"')\<close>. At a colon, \<open>matchSingleQuoted\<close> matches the text
  after it against \<open>\s*'[^']*'\<close> and returns group 1 and the text after the closing
  quote. The space between the colon and the quote is not in the replacement.
\<close>

definition matchSingleQuoted :: "string \<Rightarrow> (string \<times> string) option" where
  "matchSingleQuoted cs =
     (case dropWhile isSpace cs of
        [] \<Rightarrow> None
      | q # r \<Rightarrow>
          if q = squote then
            (case dropWhile (\<lambda>c. c \<noteq> squote) r of
               [] \<Rightarrow> None
             | q' # r' \<Rightarrow> Some (takeWhile (\<lambda>c. c \<noteq> squote) r, r'))
          else None)"

lemma matchSingleQuoted_length:
  assumes "matchSingleQuoted cs = Some (g, r')"
  shows "length r' < length cs"
proof -
  from assms obtain q r q' where
    a: "dropWhile isSpace cs = q # r" and b: "dropWhile (\<lambda>c. c \<noteq> squote) r = q' # r'"
    by (auto simp: matchSingleQuoted_def split: list.splits if_splits)
  from dropWhile_Cons_length [OF a] dropWhile_Cons_length [OF b]
  show ?thesis by simp
qed

function singleQuotes :: "string \<Rightarrow> string" where
  "singleQuotes [] = []"
| "singleQuotes (c # cs) =
     (if c = CHR '':'' then
        (case matchSingleQuoted cs of
           Some (g, r) \<Rightarrow> CHR '':'' # dquote # g @ dquote # singleQuotes r
         | None \<Rightarrow> c # singleQuotes cs)
      else c # singleQuotes cs)"
  by pat_completeness auto
termination
  by (relation "measure length") (auto dest: matchSingleQuoted_length)

text \<open>\<open>replace(/\\([^"\\\/bfnrtu])/g, '$1')\<close>: a backslash in front of a character that
  is none of \<open>" \ / b f n r t u\<close> is dropped, and the scan goes on after that character.\<close>

definition isEscapeChar :: "char \<Rightarrow> bool" where
  "isEscapeChar d \<longleftrightarrow>
     d = dquote \<or> d = backslash \<or> d = CHR ''/'' \<or> d = CHR ''b'' \<or> d = CHR ''f'' \<or>
     d = CHR ''n'' \<or> d = CHR ''r'' \<or> d = CHR ''t'' \<or> d = CHR ''u''"

fun fixEscapes :: "string \<Rightarrow> string" where
  "fixEscapes [] = []"
| "fixEscapes [c] = [c]"
| "fixEscapes (c # d # cs) =
     (if c = backslash \<and> \<not> isEscapeChar d then d # fixEscapes cs
      else c # fixEscapes (d # cs))"

text \<open>\<open>replace(/\n/g, '\\n')\<close>, \<open>replace(/\r/g, '\\r')\<close> and \<open>replace(/\t/g, '\\t')\<close>: every
  occurrence of the character becomes a backslash and a letter.\<close>

definition escapeChar :: "char \<Rightarrow> char \<Rightarrow> string \<Rightarrow> string" where
  "escapeChar x letter s = concat (map (\<lambda>c. if c = x then [backslash, letter] else [c]) s)"

definition repair :: "string \<Rightarrow> string" where
  "repair s =
     escapeChar tab (CHR ''t'')
       (escapeChar creturn (CHR ''r'')
         (escapeChar newline (CHR ''n'')
           (fixEscapes
             (singleQuotes
               (quoteKeys
                 (removeTrailingCommas
                   (stripZeroWidth
                     (trim s))))))))"

subsection \<open>Values at run time\<close>

text \<open>
  The values the program handles are the results of \<open>JSON.parse\<close>; \<open>undefined\<close> is
  \<open>None\<close> of \<^typ>\<open>json option\<close>.
\<close>

fun truthy :: "json \<Rightarrow> bool" where
  "truthy JNull = False"
| "truthy (JBool b) = b"
| "truthy (JNum x) = (x \<noteq> 0)"
| "truthy (JStr s) = (s \<noteq> [])"
| "truthy (JArr xs) = True"
| "truthy (JObj ms) = True"

definition truthyOpt :: "json option \<Rightarrow> bool" where
  "truthyOpt v = (case v of None \<Rightarrow> False | Some x \<Rightarrow> truthy x)"

definition digitChar :: "nat \<Rightarrow> char" where
  "digitChar d = ''0123456789'' ! d"

fun showNat :: "nat \<Rightarrow> string" where
  "showNat n = (if n < 10 then [digitChar n] else showNat (n div 10) @ [digitChar (n mod 10)])"

declare showNat.simps [simp del]

text \<open>The names every object inherits from \<open>Object.prototype\<close>.\<close>

definition objectPrototypeNames :: "string list" where
  "objectPrototypeNames =
     [''constructor'', ''hasOwnProperty'', ''isPrototypeOf'', ''propertyIsEnumerable'',
      ''toLocaleString'', ''toString'', ''valueOf'', ''__proto__'',
      ''__defineGetter__'', ''__defineSetter__'', ''__lookupGetter__'', ''__lookupSetter__'']"

text \<open>
  The operator \<open>in\<close>: own and inherited property names of an object; a \<open>TypeError\<close> on a
  value that is no object. For an array the own names are the indices and \<open>length\<close>; the
  method names of \<open>Array.prototype\<close> are left out, the program tests none of them.
\<close>

fun js_in :: "string \<Rightarrow> json \<Rightarrow> js_error + bool" where
  "js_in k (JObj ms) = Inr (k \<in> fst ` set ms \<or> k \<in> set objectPrototypeNames)"
| "js_in k (JArr xs) =
     Inr (k \<in> set (map showNat [0..<length xs]) \<or> k = ''length'' \<or>
          k \<in> set objectPrototypeNames)"
| "js_in k v = Inl (TypeError ''Cannot use 'in' operator to search for a key in a primitive value'')"

text \<open>
  Reading a property: the own member of an object. \<open>None\<close> is \<open>undefined\<close>, which is also
  the result on a number, a string or a boolean for the names the program reads.
  Reading a property of \<open>null\<close> or \<open>undefined\<close> is a \<open>TypeError\<close>.
\<close>

fun getProp :: "json \<Rightarrow> string \<Rightarrow> js_error + json option" where
  "getProp (JObj ms) k = Inr (map_of ms k)"
| "getProp JNull k = Inl (TypeError ''Cannot read properties of null'')"
| "getProp v k = Inr None"

definition getPropOpt :: "json option \<Rightarrow> string \<Rightarrow> js_error + json option" where
  "getPropOpt v k =
     (case v of
        None \<Rightarrow> Inl (TypeError ''Cannot read properties of undefined'')
      | Some x \<Rightarrow> getProp x k)"

subsection \<open>\<open>parseJsonResponse\<close>\<close>

text \<open>\<open>requiredFields.filter(field => !(field in parsed))\<close>, from left to right; the first
  \<open>TypeError\<close> of \<open>in\<close> ends it.\<close>

fun missingOf :: "string list \<Rightarrow> json \<Rightarrow> js_error + string list" where
  "missingOf [] parsed = Inr []"
| "missingOf (f # fs) parsed =
     (case js_in f parsed of
        Inl e \<Rightarrow> Inl e
      | Inr present \<Rightarrow>
          (case missingOf fs parsed of
             Inl e \<Rightarrow> Inl e
           | Inr ms \<Rightarrow> Inr (if present then ms else f # ms)))"

text \<open>The body of each \<open>try\<close> block: parse, then check the required fields.\<close>

definition parseAndCheck :: "string \<Rightarrow> string \<Rightarrow> string list \<Rightarrow> js_error + json" where
  "parseAndCheck label text requiredFields =
     (case JSON_parse text of
        Inl e \<Rightarrow> Inl e
      | Inr parsed \<Rightarrow>
          (case missingOf requiredFields parsed of
             Inl e \<Rightarrow> Inl e
           | Inr ms \<Rightarrow>
               if length ms > 0 then Inl (Error (label @ join '', '' ms))
               else Inr parsed))"

definition defaultRequiredFields :: "string list" where
  "defaultRequiredFields = [''question'', ''expectedTopics'', ''difficulty'', ''modelAnswer'']"

definition parseJsonResponse :: "json \<Rightarrow> string list \<Rightarrow> js_error + json" where
  "parseJsonResponse response requiredFields =
     (case response of
        JStr text \<Rightarrow>
          if text = [] then Inl (Error ''Response must be a non-empty string'')
          else
            (case jsonMatch text of
               None \<Rightarrow> Inl (Error ''No JSON object found in response'')
             | Some cleanedResponse \<Rightarrow>
                 (case parseAndCheck ''Missing required fields: '' cleanedResponse requiredFields of
                    Inr parsed \<Rightarrow> Inr parsed
                  | Inl initialError \<Rightarrow>
                      (case parseAndCheck ''Missing required fields after cleaning: ''
                              (repair cleanedResponse) requiredFields of
                         Inr parsed \<Rightarrow> Inr parsed
                       | Inl finalError \<Rightarrow>
                           Inl (Error (''Failed to parse response as JSON: '' @ message finalError
                                       @ newline # ''Response: '' @ repair cleanedResponse)))))
      | _ \<Rightarrow> Inl (Error ''Response must be a non-empty string''))"

section \<open>The question validator\<close>

text \<open>Sequencing of computations that may throw.\<close>

definition bindE :: "'e + 'a \<Rightarrow> ('a \<Rightarrow> 'e + 'b) \<Rightarrow> 'e + 'b" where
  "bindE m f = (case m of Inl e \<Rightarrow> Inl e | Inr x \<Rightarrow> f x)"

definition isArray :: "json option \<Rightarrow> bool" where
  "isArray v = (case v of Some (JArr xs) \<Rightarrow> True | _ \<Rightarrow> False)"

definition isNumber :: "json option \<Rightarrow> bool" where
  "isNumber v = (case v of Some (JNum x) \<Rightarrow> True | _ \<Rightarrow> False)"

definition isString :: "json option \<Rightarrow> bool" where
  "isString v = (case v of Some (JStr s) \<Rightarrow> True | _ \<Rightarrow> False)"

text \<open>\<open>typeof v === 'object'\<close> for a truthy \<open>v\<close>: an object or an array.\<close>

definition isObjectType :: "json option \<Rightarrow> bool" where
  "isObjectType v = (case v of Some (JArr xs) \<Rightarrow> True | Some (JObj ms) \<Rightarrow> True | _ \<Rightarrow> False)"

definition requiredOptions :: "string list" where
  "requiredOptions = [''A'', ''B'', ''C'', ''D'']"

text \<open>\<open>requiredOptions.includes(v)\<close>: \<open>v\<close> is a string equal to one of the labels.\<close>

definition isRequiredOption :: "json option \<Rightarrow> bool" where
  "isRequiredOption v = (case v of Some (JStr s) \<Rightarrow> s \<in> set requiredOptions | _ \<Rightarrow> False)"

definition validateMcq :: "json option \<Rightarrow> js_error + unit" where
  "validateMcq modelAnswer =
     bindE (getPropOpt modelAnswer ''options'') (\<lambda>options.
       case options of
         None \<Rightarrow> Inl (Error ''MCQ response must include options object'')
       | Some opts \<Rightarrow>
           if \<not> truthy opts \<or> \<not> isObjectType options
           then Inl (Error ''MCQ response must include options object'')
           else
             bindE (missingOf requiredOptions opts) (\<lambda>missingOptions.
               if length missingOptions > 0
               then Inl (Error (''Missing MCQ options: '' @ join '', '' missingOptions))
               else
                 bindE (getPropOpt modelAnswer ''correctOption'') (\<lambda>correctOption.
                   if \<not> truthyOpt correctOption \<or> \<not> isRequiredOption correctOption
                   then Inl (Error
                     ''MCQ response must include a valid correctOption (A, B, C, or D)'')
                   else
                     bindE (getPropOpt modelAnswer ''explanation'') (\<lambda>explanation.
                       if \<not> truthyOpt explanation \<or> \<not> isString explanation
                       then Inl (Error ''MCQ response must include an explanation'')
                       else Inr ()))))"

definition validateCoding :: "json option \<Rightarrow> js_error + unit" where
  "validateCoding modelAnswer =
     bindE (getPropOpt modelAnswer ''isCode'') (\<lambda>isCode.
       if \<not> truthyOpt isCode
       then Inl (Error ''Coding response must include isCode flag and content'')
       else
         bindE (getPropOpt modelAnswer ''content'') (\<lambda>content.
           if \<not> isString content
           then Inl (Error ''Coding response must include isCode flag and content'')
           else Inr ()))"

definition validateOther :: "json option \<Rightarrow> js_error + unit" where
  "validateOther modelAnswer =
     bindE (getPropOpt modelAnswer ''content'') (\<lambda>content.
       if \<not> isString content
       then Inl (Error ''Model answer must include content string'')
       else Inr ())"

definition validateQuestionResponse :: "json \<Rightarrow> string \<Rightarrow> js_error + json" where
  "validateQuestionResponse response questionType =
     (if \<not> truthy response then Inl (Error ''Response cannot be null or undefined'')
      else
        bindE (missingOf defaultRequiredFields response) (\<lambda>missingFields.
          if length missingFields > 0
          then Inl (Error (''Missing required fields: '' @ join '', '' missingFields))
          else
            bindE (getProp response ''expectedTopics'') (\<lambda>expectedTopics.
              if \<not> isArray expectedTopics then Inl (Error ''expectedTopics must be an array'')
              else
                bindE (getProp response ''difficulty'') (\<lambda>difficulty.
                  if \<not> isNumber difficulty then Inl (Error ''difficulty must be a number'')
                  else
                    bindE (getProp response ''modelAnswer'') (\<lambda>modelAnswer.
                      bindE
                        (if toLowerCase questionType = ''mcq'' then validateMcq modelAnswer
                         else if toLowerCase questionType = ''coding'' then validateCoding modelAnswer
                         else validateOther modelAnswer)
                        (\<lambda>_. Inr response))))))"

section \<open>The prompt builder\<close>

text \<open>The expression \<open>difficulty === 'Easy' ? 1 : difficulty === 'Medium' ? 2 : 3\<close> of every
  template.\<close>

definition difficultyTier :: "string \<Rightarrow> nat" where
  "difficultyTier difficulty =
     (if difficulty = ''Easy'' then 1 else if difficulty = ''Medium'' then 2 else 3)"

text \<open>The four templates, line by line as in the source.\<close>

definition mcqPrompt :: "string \<Rightarrow> string \<Rightarrow> nat \<Rightarrow> string" where
  \<open>mcqPrompt technology difficulty questionNumber =
     join [newline]
        [''You are a technical interviewer specializing in '' @ technology @ ''. Generate a multiple choice question (MCQ) that tests knowledge of '' @ technology @ ''.'',
         '''',
         ''The question should:'',
         ''1. Test specific knowledge in '' @ technology,
         ''2. Be appropriate for '' @ difficulty @ '' difficulty level'',
         ''3. Have exactly 4 options (A, B, C, D)'',
         ''4. Have only one correct answer'',
         ''5. Question number '' @ showNat questionNumber @ '' in the sequence - ensure it's completely different from previous questions'',
         ''6. Include clear explanations for why each option is correct or incorrect'',
         '''',
         ''IMPORTANT: Return ONLY a valid JSON object with the following fields:'',
         ''{'',
         ''  "question": "The MCQ question text - must be specific to '' @ technology @ ''",'',
         ''  "expectedTopics": ['',
         ''    "List of concepts being tested",'',
         ''    "Key '' @ technology @ '' knowledge points covered"'',
         ''  ],'',
         ''  "difficulty": '' @ showNat (difficultyTier difficulty) @ '','',
         ''  "modelAnswer": {'',
         ''    "options": {'',
         ''      "A": "First option",'',
         ''      "B": "Second option",'',
         ''      "C": "Third option",'',
         ''      "D": "Fourth option"'',
         ''    },'',
         ''    "correctOption": "The correct option letter (A, B, C, or D)",'',
         ''    "explanation": "Detailed explanation of why the correct answer is right and why others are wrong"'',
         ''  }'',
         ''}'',
         '''',
         ''Return ONLY the JSON object, no additional text. Ensure all strings are properly escaped.'']\<close>

definition subjectivePrompt :: "string \<Rightarrow> string \<Rightarrow> nat \<Rightarrow> string" where
  \<open>subjectivePrompt technology difficulty questionNumber =
     join [newline]
        [''You are a technical interviewer specializing in '' @ technology @ ''. Generate a logical reasoning and analytical thinking question that is relevant to '' @ technology @ '' development scenarios.'',
         '''',
         ''The question should:'',
         ''1. Test critical thinking and problem-solving abilities in the context of '' @ technology @ '' projects'',
         ''2. Focus on real-world scenarios a '' @ technology @ '' developer might face'',
         ''3. Be appropriate for '' @ difficulty @ '' difficulty level'',
         ''4. Test decision-making and analytical skills specific to '' @ technology @ '' development'',
         ''5. Question number '' @ showNat questionNumber @ '' in the sequence - ensure it's different from previous questions'',
         '''',
         ''IMPORTANT: Return ONLY a valid JSON object with the following fields:'',
         ''{'',
         ''  "question": "The question text - must be specific to '' @ technology @ ''",'',
         ''  "expectedTopics": ['',
         ''    "List of 4-5 key points that should be covered in the answer",'',
         ''    "Each point should be relevant to '' @ technology @ ''"'',
         ''  ],'',
         ''  "difficulty": '' @ showNat (difficultyTier difficulty) @ '','',
         ''  "modelAnswer": {'',
         ''    "isCode": false,'',
         ''    "content": "A detailed explanation of what a good answer should include, specific to '' @ technology @ ''"'',
         ''  }'',
         ''}'',
         '''',
         ''Return ONLY the JSON object, no additional text. Ensure all strings are properly escaped.'']\<close>

definition codingPrompt :: "string \<Rightarrow> string \<Rightarrow> nat \<Rightarrow> string" where
  \<open>codingPrompt technology difficulty questionNumber =
     join [newline]
        [''You are a technical interviewer specializing in '' @ technology @ ''. Generate a coding question that tests practical '' @ technology @ '' implementation skills.'',
         '''',
         ''The question should:'',
         ''1. Test coding ability in '' @ technology,
         ''2. Be appropriate for '' @ difficulty @ '' difficulty level'',
         ''3. Focus on real-world scenarios'',
         ''4. Be clear and unambiguous'',
         ''5. Question number '' @ showNat questionNumber @ '' in the sequence - ensure it's different from previous questions'',
         '''',
         ''IMPORTANT: Return ONLY a valid JSON object with the following fields. Ensure all code in the content field is properly escaped:'',
         ''{'',
         ''  "question": "The coding problem statement with clear requirements and examples",'',
         ''  "expectedTopics": ['',
         ''    "List of concepts and skills being tested",'',
         ''    "Important considerations for the implementation"'',
         ''  ],'',
         ''  "difficulty": '' @ showNat (difficultyTier difficulty) @ '','',
         ''  "modelAnswer": {'',
         ''    "isCode": true,'',
         ''    "content": "// Your code solution here'' @ [backslash] @ ''n// Use double backslashes for newlines'' @ [backslash] @ ''n// Escape all quotes"'',
         ''  }'',
         ''}'',
         '''',
         ''RULES for the content field:'',
         ''1. Use double backslashes for newlines ('' @ [backslash] @ ''n)'',
         ''2. Escape all quotes ('' @ [backslash] @ ''" for double quotes)'',
         ''3. Avoid using backticks'',
         ''4. Keep indentation using spaces (no tabs)'',
         ''5. Escape any special characters'',
         '''',
         ''Return ONLY the JSON object, no additional text.'']\<close>

definition fallbackPrompt :: "string \<Rightarrow> string \<Rightarrow> nat \<Rightarrow> string" where
  \<open>fallbackPrompt technology difficulty questionNumber =
     join [newline]
        [''You are a technical interviewer specializing in '' @ technology @ ''. Generate a multiple-choice question that tests '' @ technology @ '' knowledge.'',
         '''',
         ''The question should:'',
         ''1. Test understanding of '' @ technology @ '' concepts'',
         ''2. Be appropriate for '' @ difficulty @ '' difficulty level'',
         ''3. Have clear, unambiguous options'',
         ''4. Question number '' @ showNat questionNumber @ '' in the sequence - ensure it's different from previous questions'',
         '''',
         ''IMPORTANT: Return ONLY a valid JSON object with the following fields:'',
         ''{'',
         ''  "question": "The question text",'',
         ''  "expectedTopics": ["Key concepts being tested"],'',
         ''  "difficulty": '' @ showNat (difficultyTier difficulty) @ '','',
         ''  "modelAnswer": {'',
         ''    "isCode": false,'',
         ''    "content": "Explanation of why the correct answer is right"'',
         ''  },'',
         ''  "options": ['',
         ''    "A) First option",'',
         ''    "B) Second option",'',
         ''    "C) Third option",'',
         ''    "D) Fourth option"'',
         ''  ],'',
         ''  "correctOption": "A"'',
         ''}'',
         '''',
         ''Return ONLY the JSON object, no additional text. Ensure all strings are properly escaped.'']\<close>

definition generateQuestionPrompt :: "string \<Rightarrow> string \<Rightarrow> nat \<Rightarrow> string \<Rightarrow> string" where
  "generateQuestionPrompt technology difficulty questionNumber questionType =
     (if toLowerCase questionType = ''mcq'' then mcqPrompt technology difficulty questionNumber
      else if toLowerCase questionType = ''subjective''
        then subjectivePrompt technology difficulty questionNumber
      else if toLowerCase questionType = ''coding''
        then codingPrompt technology difficulty questionNumber
      else fallbackPrompt technology difficulty questionNumber)"

text \<open>The scoring prompt of \<open>analyzeResponse\<close>.\<close>

definition analysisPrompt :: "string \<Rightarrow> string \<Rightarrow> string list \<Rightarrow> string" where
  \<open>analysisPrompt question response expectedTopics =
     join [newline]
        [''Analyze this response to the following interview question. Provide feedback and a score out of 10.'',
         '''',
         ''Question: '' @ question,
         '''',
         ''Response: '' @ response,
         '''',
         ''Expected topics to be covered:'',
     join [newline] (map (\<lambda>topic. ''- '' @ topic) expectedTopics),
         '''',
         ''Return your analysis in this JSON format:'',
         ''{'',
         ''  "score": 8,'',
         ''  "feedback": "Detailed feedback about the response",'',
         ''  "coveredTopics": ["Topics that were covered well in the response"],'',
         ''  "missingTopics": ["Expected topics that were not covered"],'',
         ''  "improvement": "Suggestions for improvement"'',
         ''}'',
         '''',
         ''Make sure to:'',
         ''1. Score between 0 and 10 points only'',
         ''2. Include all topics from the expected topics list in either coveredTopics or missingTopics'',
         ''3. Provide specific, actionable feedback'']\<close>

section \<open>The rate limiter and the model client\<close>

text \<open>
  The state of the module and of its surroundings: the clock read by \<open>Date.now()\<close> in
  milliseconds, the variable \<open>lastRequestTime\<close>, and the prompts sent to the completion
  API so far, latest first.
\<close>

record world =
  clock :: int
  lastRequestTime :: int
  requests :: "string list"

text \<open>What \<open>fetch\<close> gives: a rejected promise, or a response with its status, status
  text and body.\<close>

datatype fetch_result =
    NetworkFailure
  | HttpResponse nat string string

text \<open>
  What one call meets outside the program: the configured key, by how long the timer of
  \<open>sleep\<close> fires after its delay (a timer does not fire early), how long the API takes,
  and what it answers to a prompt.
\<close>

record environment =
  GROQ_API_KEY :: "string option"
  timerLag :: nat
  latency :: nat
  remote :: "string \<Rightarrow> fetch_result"

definition MIN_REQUEST_INTERVAL :: int where
  "MIN_REQUEST_INTERVAL = 3000"

definition sleep :: "environment \<Rightarrow> int \<Rightarrow> world \<Rightarrow> world" where
  "sleep env ms w = w\<lparr>clock := clock w + max ms 0 + int (timerLag env)\<rparr>"

definition waitForRateLimit :: "environment \<Rightarrow> world \<Rightarrow> world" where
  "waitForRateLimit env w =
     (let now = clock w;
          timeSinceLastRequest = now - lastRequestTime w;
          w1 = (if timeSinceLastRequest < MIN_REQUEST_INTERVAL
                then sleep env (MIN_REQUEST_INTERVAL - timeSinceLastRequest) w
                else w)
      in w1\<lparr>lastRequestTime := clock w1\<rparr>)"

text \<open>\<open>!GROQ_API_KEY\<close>: the variable is unset or empty.\<close>

definition keyMissing :: "environment \<Rightarrow> bool" where
  "keyMissing env = (case GROQ_API_KEY env of None \<Rightarrow> True | Some k \<Rightarrow> k = [])"

definition responseOk :: "nat \<Rightarrow> bool" where
  "responseOk status \<longleftrightarrow> 200 \<le> status \<and> status \<le> 299"

definition makeGroqRequest :: "environment \<Rightarrow> string \<Rightarrow> world \<Rightarrow> (js_error + json) \<times> world" where
  "makeGroqRequest env prompt w =
     (if keyMissing env then (Inl (Error ''GROQ API key is not configured''), w)
      else
        let w1 = waitForRateLimit env w;
            w2 = w1\<lparr>requests := prompt # requests w1,
                     clock := clock w1 + int (latency env)\<rparr>
        in case remote env prompt of
             NetworkFailure \<Rightarrow> (Inl (TypeError ''fetch failed''), w2)
           | HttpResponse status statusText body \<Rightarrow>
               if \<not> responseOk status then
                 if status = 429 then (Inl (Error ''Rate limit exceeded''), w2)
                 else (Inl (Error (''API request failed: '' @ showNat status @ '' ''
                                   @ statusText)), w2)
               else (JSON_parse body, w2))"

text \<open>
  Optional chaining: \<open>v?.k\<close> and \<open>v?.[0]\<close> are \<open>undefined\<close> on \<open>null\<close> and \<open>undefined\<close>.
\<close>

definition optProp :: "json option \<Rightarrow> string \<Rightarrow> json option" where
  "optProp v k = (case v of Some (JObj ms) \<Rightarrow> map_of ms k | _ \<Rightarrow> None)"

definition optIndex0 :: "json option \<Rightarrow> json option" where
  "optIndex0 v =
     (case v of
        Some (JArr xs) \<Rightarrow> (case xs of [] \<Rightarrow> None | x # _ \<Rightarrow> Some x)
      | Some (JObj ms) \<Rightarrow> map_of ms ''0''
      | Some (JStr s) \<Rightarrow> (case s of [] \<Rightarrow> None | c # _ \<Rightarrow> Some (JStr [c]))
      | _ \<Rightarrow> None)"

text \<open>\<open>response?.choices?.[0]?.message?.content\<close>.\<close>

definition completionContent :: "json \<Rightarrow> json option" where
  "completionContent response =
     optProp (optProp (optIndex0 (optProp (Some response) ''choices'')) ''message'') ''content''"

section \<open>Question generation\<close>

definition generateQuestion ::
  "environment \<Rightarrow> string \<Rightarrow> string \<Rightarrow> nat \<Rightarrow> string \<Rightarrow> world \<Rightarrow> (js_error + json) \<times> world" where
  "generateQuestion env technology difficulty questionNumber questionType w =
     (let prompt = generateQuestionPrompt technology difficulty questionNumber questionType;
          (r, w') = makeGroqRequest env prompt w
      in (bindE r (\<lambda>response.
            case completionContent response of
              None \<Rightarrow> Inl (Error ''Invalid response structure from GROQ API'')
            | Some content \<Rightarrow>
                if \<not> truthy content then Inl (Error ''Invalid response structure from GROQ API'')
                else if \<not> isString (Some content)
                  then Inl (TypeError ''content.substring is not a function'')
                else
                  bindE (parseJsonResponse content defaultRequiredFields) (\<lambda>parsedResponse.
                    bindE (validateQuestionResponse parsedResponse questionType) (\<lambda>_.
                      Inr parsedResponse))), w'))"

section \<open>The answer scorer\<close>

text \<open>Assignment to a property of an object.\<close>

fun setProp :: "json \<Rightarrow> string \<Rightarrow> json \<Rightarrow> json" where
  "setProp (JObj ms) k v = JObj (putMember k v ms)"
| "setProp x k v = x"

text \<open>The score as \<open>analyzeResponse\<close> leaves it.\<close>

definition normalizeScore :: "json option \<Rightarrow> json" where
  "normalizeScore score =
     (case score of
        Some (JNum x) \<Rightarrow>
          (let y = (if x > 10 then min 10 (x / 10) else x)
           in JNum (max 0 (min 10 y)))
      | _ \<Rightarrow> JNum 0)"

definition coerceArray :: "string \<Rightarrow> json \<Rightarrow> json" where
  "coerceArray k result =
     (case getProp result k of
        Inr v \<Rightarrow> if \<not> isArray v then setProp result k (JArr []) else result
      | Inl e \<Rightarrow> result)"

definition analysisFields :: "string list" where
  "analysisFields = [''score'', ''feedback'', ''coveredTopics'', ''missingTopics'']"

definition finishAnalysis :: "json \<Rightarrow> json" where
  "finishAnalysis result =
     (let score = (case getProp result ''score'' of Inr v \<Rightarrow> v | Inl e \<Rightarrow> None);
          r1 = setProp result ''score'' (normalizeScore score);
          r2 = coerceArray ''coveredTopics'' r1;
          r3 = coerceArray ''missingTopics'' r2
      in r3)"

definition analyzeResponse ::
  "environment \<Rightarrow> string \<Rightarrow> string \<Rightarrow> string list \<Rightarrow> world \<Rightarrow> (js_error + json) \<times> world" where
  "analyzeResponse env question response expectedTopics w =
     (if keyMissing env then (Inl (Error ''GROQ API key is not configured''), w)
      else
        let prompt = analysisPrompt question response expectedTopics;
            (r, w') = makeGroqRequest env prompt w
        in (bindE r (\<lambda>apiResponse.
              case completionContent apiResponse of
                None \<Rightarrow> Inl (Error ''Invalid response structure from GROQ API'')
              | Some content \<Rightarrow>
                  if \<not> truthy content
                  then Inl (Error ''Invalid response structure from GROQ API'')
                  else
                    bindE (parseJsonResponse content analysisFields) (\<lambda>result.
                      Inr (finishAnalysis result))), w'))"

section \<open>The two routes\<close>

text \<open>\<open>NextResponse.json(body, { status })\<close>; the status is 200 when none is given.\<close>

datatype http_response = Response nat json

text \<open>
  The body of a request to the analysis route, with the types the interview page sends;
  \<open>None\<close> is a field that is absent. A string is falsy when it is empty, an array never.
\<close>

record analyze_body =
  a_question :: "string option"
  a_response :: "string option"
  a_expectedTopics :: "string list option"
  a_questionType :: "string option"
  a_correctOption :: "string option"
  a_explanation :: "string option"

definition falsyStr :: "string option \<Rightarrow> bool" where
  "falsyStr v = (case v of None \<Rightarrow> True | Some s \<Rightarrow> s = [])"

text \<open>\<open>explanation || ''\<close>.\<close>

definition orEmpty :: "string option \<Rightarrow> string" where
  "orEmpty v = (case v of None \<Rightarrow> [] | Some s \<Rightarrow> s)"

definition topicsJson :: "string list \<Rightarrow> json" where
  "topicsJson ts = JArr (map JStr ts)"

definition mcqAnalysis :: "string \<Rightarrow> string \<Rightarrow> string option \<Rightarrow> string list \<Rightarrow> json" where
  "mcqAnalysis response correctOption explanation expectedTopics =
     (let isCorrect = (toUpperCase response = toUpperCase correctOption)
      in JObj
           [(''score'', JNum (if isCorrect then 10 else 0)),
            (''feedback'',
               JStr (if isCorrect then ''Correct! '' @ orEmpty explanation
                     else ''Incorrect. The correct answer is '' @ correctOption @ ''. ''
                          @ orEmpty explanation)),
            (''coveredTopics'', if isCorrect then topicsJson expectedTopics else JArr []),
            (''missingTopics'', if isCorrect then JArr [] else topicsJson expectedTopics)])"

definition POST_analyze :: "environment \<Rightarrow> analyze_body \<Rightarrow> world \<Rightarrow> http_response \<times> world" where
  "POST_analyze env body w =
     (if falsyStr (a_question body) \<or> falsyStr (a_response body)
         \<or> a_expectedTopics body = None \<or> falsyStr (a_questionType body)
      then (Response 400 (JObj [(''error'', JStr ''Missing required fields'')]), w)
      else
        let question = orEmpty (a_question body);
            response = orEmpty (a_response body);
            expectedTopics = (case a_expectedTopics body of None \<Rightarrow> [] | Some ts \<Rightarrow> ts);
            questionType = orEmpty (a_questionType body)
        in if toLowerCase questionType = ''mcq'' then
             (if falsyStr (a_correctOption body)
              then (Response 400 (JObj [(''error'', JStr ''Missing correct option for MCQ'')]), w)
              else (Response 200
                      (mcqAnalysis response (orEmpty (a_correctOption body))
                         (a_explanation body) expectedTopics), w))
           else
             (case analyzeResponse env question response expectedTopics w of
                (Inr analysis, w') \<Rightarrow> (Response 200 analysis, w')
              | (Inl error, w') \<Rightarrow>
                  (Response 500
                     (JObj [(''error'', JStr ''Failed to analyze response''),
                            (''details'', JStr (message error))]), w')))"

text \<open>
  \<open>decodeURIComponent\<close> on ASCII text: \<open>%XX\<close> with two hexadecimal digits is the character
  of that code; a \<open>%\<close> without two such digits is a \<open>URIError\<close>. An escape of a byte from
  0x80 on starts a sequence that is malformed or denotes a character outside the alphabet
  of the model; the model answers \<open>URIError\<close> for both.
\<close>

fun decodeURIComponent :: "string \<Rightarrow> js_error + string" where
  "decodeURIComponent [] = Inr []"
| "decodeURIComponent (c # cs) =
     (if c = CHR ''%'' then
        (case cs of
           h1 # h2 # r \<Rightarrow>
             (case (hexVal h1, hexVal h2) of
                (Some a, Some b) \<Rightarrow>
                  if 16 * a + b < 128
                  then bindE (decodeURIComponent r) (\<lambda>t. Inr (char_of (16 * a + b) # t))
                  else Inl (URIError ''URI malformed'')
              | _ \<Rightarrow> Inl (URIError ''URI malformed''))
         | _ \<Rightarrow> Inl (URIError ''URI malformed''))
      else bindE (decodeURIComponent cs) (\<lambda>t. Inr (c # t)))"

text \<open>The body of a request to the question route.\<close>

record question_body =
  q_technology :: "string option"
  q_difficulty :: "string option"
  q_questionNumber :: nat
  q_questionType :: "string option"

text \<open>The inner \<open>try\<close> of the question route with its \<open>catch\<close>: the question, the
  response for a rate limit, or the error thrown on to the outer \<open>catch\<close>.\<close>

definition questionAttempt ::
  "environment \<Rightarrow> string \<Rightarrow> string \<Rightarrow> nat \<Rightarrow> string \<Rightarrow> world
     \<Rightarrow> (js_error + http_response) \<times> world" where
  "questionAttempt env cleanTechnology cleanDifficulty questionNumber questionType w =
     (let (r, w') = generateQuestion env cleanTechnology cleanDifficulty questionNumber
                      questionType w;
          attempt = bindE r (\<lambda>question.
            if \<not> truthy question \<or> \<not> isObjectType (Some question)
            then Inl (Error ''Invalid question format received'')
            else Inr (Response 200 question))
      in case attempt of
           Inr resp \<Rightarrow> (Inr resp, w')
         | Inl error \<Rightarrow>
             if str_includes (message error) ''rate limit''
             then (Inr (Response 429
                     (JObj [(''error'',
                        JStr ''Rate limit exceeded. Please wait a moment before trying again.'')])),
                   w')
             else (Inl error, w'))"

definition POST_question :: "environment \<Rightarrow> question_body \<Rightarrow> world \<Rightarrow> http_response \<times> world" where
  "POST_question env body w =
     (if falsyStr (q_technology body) \<or> falsyStr (q_difficulty body)
         \<or> falsyStr (q_questionType body)
      then (Response 400
              (JObj [(''error'', JStr ''Technology, difficulty, and question type are required'')]), w)
      else
        case decodeURIComponent (trim (orEmpty (q_technology body))) of
          Inl error \<Rightarrow> (Response 500 (JObj [(''error'', JStr (message error))]), w)
        | Inr cleanTechnology \<Rightarrow>
            let cleanDifficulty = toLowerCase (trim (orEmpty (q_difficulty body)))
            in case questionAttempt env cleanTechnology cleanDifficulty
                      (q_questionNumber body) (orEmpty (q_questionType body)) w of
                 (Inr resp, w') \<Rightarrow> (resp, w')
               | (Inl error, w') \<Rightarrow>
                   (Response 500 (JObj [(''error'', JStr (message error))]), w'))"

section \<open>Texts in which no repair pattern matches\<close>







text \<open>A name with a character that is no digit, other than \<open>length\<close> and the inherited
  names, is in a value exactly when the value is an object with this member.\<close>

definition plainName :: "string \<Rightarrow> bool" where
  "plainName f \<longleftrightarrow> (\<exists>c \<in> set f. \<not> isDigit c) \<and> f \<noteq> ''length'' \<and> f \<notin> set objectPrototypeNames"

section \<open>Properties\<close>

subsection \<open>Auxiliary facts\<close>

lemma map_of_putMember:
  "map_of (putMember k v ms) k' = (if k' = k then Some v else map_of ms k')"
  by (induction ms) auto

lemma normalizeScore_range: "\<exists>y. normalizeScore v = JNum y \<and> 0 \<le> y \<and> y \<le> 10"
proof (cases v)
  case None
  then show ?thesis by (simp add: normalizeScore_def)
next
  case (Some j)
  then show ?thesis by (cases j) (simp_all add: normalizeScore_def Let_def)
qed

lemma coerceArray_obj:
  "coerceArray k (JObj ms) =
     JObj (if isArray (map_of ms k) then ms else putMember k (JArr []) ms)"
  by (simp add: coerceArray_def)


lemma code_char_of: "n < 256 \<Longrightarrow> code (char_of n) = n"
  by (simp add: code_def)

lemma lowerChar_not_upper: "\<not> isUpper (lowerChar c)"
  by (auto simp: lowerChar_def isUpper_def code_char_of)

lemma toLowerCase_no_upper: "c \<in> set (toLowerCase s) \<Longrightarrow> \<not> isUpper c"
  by (auto simp: toLowerCase_def lowerChar_not_upper)

lemma difficultyTier_toLowerCase: "difficultyTier (toLowerCase d) = 3"
proof -
  have e: "isUpper (CHR ''E'')" and m: "isUpper (CHR ''M'')"
    by (simp_all add: isUpper_def code_def)
  have "toLowerCase d \<noteq> ''Easy''"
    using toLowerCase_no_upper [of "CHR ''E''" d] e by auto
  moreover have "toLowerCase d \<noteq> ''Medium''"
    using toLowerCase_no_upper [of "CHR ''M''" d] m by auto
  ultimately show ?thesis by (simp add: difficultyTier_def)
qed

lemma digitChar_isDigit: "d < 10 \<Longrightarrow> isDigit (digitChar d)"
proof -
  assume "d < 10"
  then have "d \<in> {0, 1, 2, 3, 4, 5, 6, 7, 8, 9}" by auto
  then show ?thesis
    by (auto simp: digitChar_def isDigit_def code_def)
qed

lemma showNat_digits: "c \<in> set (showNat n) \<Longrightarrow> isDigit c"
proof (induction n arbitrary: c rule: showNat.induct)
  case (1 n)
  show ?case
  proof (cases "n < 10")
    case True
    with "1.prems" show ?thesis
      by (simp add: showNat.simps [of n] digitChar_isDigit)
  next
    case False
    with "1.prems" "1.IH" show ?thesis
      by (auto simp: showNat.simps [of n] digitChar_isDigit)
  qed
qed

lemma not_index_name: "c \<in> set f \<Longrightarrow> \<not> isDigit c \<Longrightarrow> f \<notin> set (map showNat ns)"
  using showNat_digits by auto

lemma js_in_plain:
  assumes "plainName f"
  shows "js_in f r = Inr True \<longleftrightarrow> (\<exists>ms. r = JObj ms \<and> f \<in> fst ` set ms)"
proof (cases r)
  case (JArr xs)
  from assms obtain c where "c \<in> set f" "\<not> isDigit c" by (auto simp: plainName_def)
  then have "f \<notin> set (map showNat [0..<length xs])" by (rule not_index_name)
  with assms JArr show ?thesis by (auto simp: plainName_def)
next
  case (JObj ms)
  with assms show ?thesis by (auto simp: plainName_def)
qed simp_all

lemma missingOf_obj:
  "missingOf req (JObj ms) =
     Inr (filter (\<lambda>f. f \<notin> fst ` set ms \<and> f \<notin> set objectPrototypeNames) req)"
  by (induction req) auto

lemma missingOf_nil:
  "missingOf req r = Inr [] \<Longrightarrow> f \<in> set req \<Longrightarrow> js_in f r = Inr True"
  by (induction req) (auto split: sum.splits if_splits)

lemma missingOf_nil_plain:
  assumes "missingOf req r = Inr []" and "f \<in> set req" and "plainName f"
  shows "\<exists>ms. r = JObj ms \<and> f \<in> fst ` set ms"
  using missingOf_nil [OF assms(1,2)] js_in_plain [OF assms(3)] by simp

lemma plain_names:
  "plainName ''question''" "plainName ''expectedTopics''" "plainName ''difficulty''"
  "plainName ''modelAnswer''" "plainName ''A''" "plainName ''B''" "plainName ''C''"
  "plainName ''D''" "plainName ''score''" "plainName ''feedback''"
  "plainName ''coveredTopics''" "plainName ''missingTopics''"
  by (simp_all add: plainName_def objectPrototypeNames_def isDigit_def code_def)

lemma parseAndCheck_Inr:
  "parseAndCheck label text req = Inr v \<Longrightarrow> missingOf req v = Inr []"
  by (auto simp: parseAndCheck_def split: sum.splits if_splits)

lemma parseJsonResponse_Inr:
  assumes "parseJsonResponse content req = Inr v"
  shows "missingOf req v = Inr []"
proof (cases content)
  case (JStr str)
  show ?thesis
  proof (cases "jsonMatch str")
    case None
    with assms JStr show ?thesis by (simp add: parseJsonResponse_def split: if_splits)
  next
    case (Some cleaned)
    show ?thesis
    proof (cases "parseAndCheck ''Missing required fields: '' cleaned req")
      case (Inr p)
      with assms JStr Some have "v = p"
        by (simp add: parseJsonResponse_def split: if_splits)
      with Inr show ?thesis by (auto dest: parseAndCheck_Inr)
    next
      case (Inl e)
      show ?thesis
      proof (cases "parseAndCheck ''Missing required fields after cleaning: ''
                      (repair cleaned) req")
        case (Inr p)
        with assms JStr Some Inl have "v = p"
          by (simp add: parseJsonResponse_def split: if_splits)
        with Inr show ?thesis by (auto dest: parseAndCheck_Inr)
      next
        case Inl2: (Inl e2)
        with assms JStr Some Inl show ?thesis
          by (simp add: parseJsonResponse_def split: if_splits)
      qed
    qed
  qed
qed (use assms in \<open>simp_all add: parseJsonResponse_def\<close>)


lemma analyzeResponse_Inr:
  assumes "analyzeResponse env q r ts w = (Inr analysis, w')"
  shows "\<exists>content result. parseJsonResponse content analysisFields = Inr result
           \<and> analysis = finishAnalysis result"
proof -
  obtain res w1 where m: "makeGroqRequest env (analysisPrompt q r ts) w = (res, w1)"
    by (cases "makeGroqRequest env (analysisPrompt q r ts) w")
  from assms m have b: "bindE res (\<lambda>apiResponse.
              case completionContent apiResponse of
                None \<Rightarrow> Inl (Error ''Invalid response structure from GROQ API'')
              | Some content \<Rightarrow>
                  if \<not> truthy content
                  then Inl (Error ''Invalid response structure from GROQ API'')
                  else
                    bindE (parseJsonResponse content analysisFields) (\<lambda>result.
                      Inr (finishAnalysis result))) = Inr analysis"
    by (simp add: analyzeResponse_def Let_def split: if_splits)
  then obtain apiResponse where "res = Inr apiResponse"
    by (cases res) (simp_all add: bindE_def)
  with b obtain content where c: "completionContent apiResponse = Some content"
    and b2: "bindE (parseJsonResponse content analysisFields) (\<lambda>result.
                      Inr (finishAnalysis result)) = Inr analysis"
    by (cases "completionContent apiResponse") (simp_all add: bindE_def split: if_splits)
  from b2 obtain result where "parseJsonResponse content analysisFields = Inr result"
      "analysis = finishAnalysis result"
    by (cases "parseJsonResponse content analysisFields") (auto simp: bindE_def)
  then show ?thesis by blast
qed


lemma finishAnalysis_obj:
  "finishAnalysis (JObj ms) =
     coerceArray ''missingTopics''
       (coerceArray ''coveredTopics''
          (JObj (putMember ''score'' (normalizeScore (map_of ms ''score'')) ms)))"
  by (simp add: finishAnalysis_def Let_def)

lemma coerceArray_get_same:
  "getProp (coerceArray k (JObj ms)) k =
     Inr (Some (case map_of ms k of Some (JArr xs) \<Rightarrow> JArr xs | _ \<Rightarrow> JArr []))"
  by (simp add: coerceArray_obj map_of_putMember isArray_def split: option.splits json.splits)

lemma coerceArray_get_other:
  "k' \<noteq> k \<Longrightarrow> getProp (coerceArray k (JObj ms)) k' = Inr (map_of ms k')"
  by (simp add: coerceArray_obj map_of_putMember)

lemma coerceArray_is_obj: "\<exists>ms'. coerceArray k (JObj ms) = JObj ms'"
  by (simp add: coerceArray_obj)


lemma finishAnalysis_covered:
  "getProp (finishAnalysis (JObj ms)) ''coveredTopics'' =
     Inr (Some (case map_of ms ''coveredTopics'' of
                  Some (JArr xs) \<Rightarrow> JArr xs | _ \<Rightarrow> JArr []))"
proof -
  define ms0 where "ms0 = putMember ''score'' (normalizeScore (map_of ms ''score'')) ms"
  obtain ms1 where ms1: "coerceArray ''coveredTopics'' (JObj ms0) = JObj ms1"
    using coerceArray_is_obj by blast
  have "getProp (finishAnalysis (JObj ms)) ''coveredTopics''
      = getProp (coerceArray ''missingTopics'' (JObj ms1)) ''coveredTopics''"
    by (simp add: finishAnalysis_obj ms0_def [symmetric] ms1)
  also have "\<dots> = Inr (map_of ms1 ''coveredTopics'')"
    by (rule coerceArray_get_other) simp
  also have "\<dots> = getProp (coerceArray ''coveredTopics'' (JObj ms0)) ''coveredTopics''"
    by (simp add: ms1)
  also have "\<dots> = Inr (Some (case map_of ms0 ''coveredTopics'' of
                  Some (JArr xs) \<Rightarrow> JArr xs | _ \<Rightarrow> JArr []))"
    by (rule coerceArray_get_same)
  also have "map_of ms0 ''coveredTopics'' = map_of ms ''coveredTopics''"
    by (simp add: ms0_def map_of_putMember)
  finally show ?thesis .
qed

lemma finishAnalysis_missing:
  "getProp (finishAnalysis (JObj ms)) ''missingTopics'' =
     Inr (Some (case map_of ms ''missingTopics'' of
                  Some (JArr xs) \<Rightarrow> JArr xs | _ \<Rightarrow> JArr []))"
proof -
  define ms0 where "ms0 = putMember ''score'' (normalizeScore (map_of ms ''score'')) ms"
  obtain ms1 where ms1: "coerceArray ''coveredTopics'' (JObj ms0) = JObj ms1"
    using coerceArray_is_obj by blast
  have "Inr (map_of ms1 ''missingTopics'')
        = getProp (coerceArray ''coveredTopics'' (JObj ms0)) ''missingTopics''"
    by (simp add: ms1)
  also have "\<dots> = Inr (map_of ms0 ''missingTopics'')"
    by (rule coerceArray_get_other) simp
  finally have eq: "map_of ms1 ''missingTopics'' = map_of ms ''missingTopics''"
    by (simp add: ms0_def map_of_putMember)
  have "getProp (finishAnalysis (JObj ms)) ''missingTopics''
      = getProp (coerceArray ''missingTopics'' (JObj ms1)) ''missingTopics''"
    by (simp add: finishAnalysis_obj ms0_def [symmetric] ms1)
  also have "\<dots> = Inr (Some (case map_of ms1 ''missingTopics'' of
                  Some (JArr xs) \<Rightarrow> JArr xs | _ \<Rightarrow> JArr []))"
    by (rule coerceArray_get_same)
  finally show ?thesis by (simp only: eq)
qed

subsection \<open>The answer scorer\<close>

text \<open>
  C3. A request to the analysis route that has a question, a response, expected topics,
  a question type that is \<open>mcq\<close> in any case, and a correct option, is answered without
  the environment and with the state unchanged. The response and the correct option,
  both ASCII text, are compared after \<open>toUpperCase\<close>. When they agree the score is 10, the covered topics are
  the expected topics, no topic is missing and the feedback is \<open>Correct!\<close> and the
  explanation; otherwise the score is 0, no topic is covered, the expected topics are
  missing and the feedback names the correct option and gives the explanation.
\<close>

theorem mcq_scoring:
  assumes "a_question body = Some q" and "q \<noteq> []"
    and "a_response body = Some r" and "r \<noteq> []" and "isAscii r"
    and "a_expectedTopics body = Some topics"
    and "a_questionType body = Some qt" and "toLowerCase qt = ''mcq''"
    and "a_correctOption body = Some co" and "co \<noteq> []" and "isAscii co"
  shows "POST_analyze env body w =
           (Response 200
              (if toUpperCase r = toUpperCase co
               then JObj [(''score'', JNum 10),
                          (''feedback'', JStr (''Correct! '' @ orEmpty (a_explanation body))),
                          (''coveredTopics'', topicsJson topics),
                          (''missingTopics'', JArr [])]
               else JObj [(''score'', JNum 0),
                          (''feedback'', JStr (''Incorrect. The correct answer is '' @ co @ ''. ''
                                               @ orEmpty (a_explanation body))),
                          (''coveredTopics'', JArr []),
                          (''missingTopics'', topicsJson topics)]), w)"
proof -
  from \<open>toLowerCase qt = ''mcq''\<close> have "qt \<noteq> []" by (auto simp: toLowerCase_def)
  with assms show ?thesis
    by (simp add: POST_analyze_def falsyStr_def orEmpty_def mcqAnalysis_def Let_def)
qed

theorem mcq_scoring_witness:
  "POST_analyze
     \<lparr>GROQ_API_KEY = None, timerLag = 0, latency = 0, remote = (\<lambda>p. NetworkFailure)\<rparr>
     \<lparr>a_question = Some ''Which keyword defines a function?'', a_response = Some ''b'',
      a_expectedTopics = Some [''functions''], a_questionType = Some ''MCQ'',
      a_correctOption = Some ''B'', a_explanation = Some ''def starts a definition.''\<rparr>
     \<lparr>clock = 5000, lastRequestTime = 0, requests = []\<rparr>
   = (Response 200
        (JObj [(''score'', JNum 10),
               (''feedback'', JStr ''Correct! def starts a definition.''),
               (''coveredTopics'', JArr [JStr ''functions'']),
               (''missingTopics'', JArr [])]),
      \<lparr>clock = 5000, lastRequestTime = 0, requests = []\<rparr>)"
proof -
  have lc: "toLowerCase ''MCQ'' = ''mcq''" by code_simp
  have uc: "toUpperCase ''b'' = toUpperCase ''B''" by code_simp
  have ar: "isAscii ''b''" and ac: "isAscii ''B''" by code_simp+
  from mcq_scoring [of "\<lparr>a_question = Some ''Which keyword defines a function?'',
      a_response = Some ''b'', a_expectedTopics = Some [''functions''],
      a_questionType = Some ''MCQ'', a_correctOption = Some ''B'',
      a_explanation = Some ''def starts a definition.''\<rparr>"
      "''Which keyword defines a function?''" "''b''" "[''functions'']" "''MCQ''" "''B''"
      "\<lparr>GROQ_API_KEY = None, timerLag = 0, latency = 0, remote = (\<lambda>p. NetworkFailure)\<rparr>"
      "\<lparr>clock = 5000, lastRequestTime = 0, requests = []\<rparr>",
      OF _ _ _ _ ar _ _ lc _ _ ac]
    uc
  show ?thesis by (simp add: orEmpty_def topicsJson_def)
qed

text \<open>
  C4. When the parsed answer of the model has a numeric score \<open>x\<close>, the score of the
  analysis is a number between 0 and 10: a value above 10 is divided by 10 and the
  quotient clamped to the interval, any other value is clamped as it is; 85 gives 8.5.
  Every analysis that \<open>analyzeResponse\<close> returns has a numeric score between 0 and 10.
\<close>

theorem score_normalised:
  "(map_of ms ''score'' = Some (JNum x) \<longrightarrow>
      (\<exists>y. getProp (finishAnalysis (JObj ms)) ''score'' = Inr (Some (JNum y))
           \<and> 0 \<le> y \<and> y \<le> 10
           \<and> (x > 10 \<longrightarrow> y = max 0 (min 10 (x / 10)))
           \<and> (x \<le> 10 \<longrightarrow> y = max 0 x)
           \<and> (x = 85 \<longrightarrow> y = 8.5)))
   \<and> (analyzeResponse env q r ts w = (Inr analysis, w') \<longrightarrow>
      (\<exists>y. getProp analysis ''score'' = Inr (Some (JNum y)) \<and> 0 \<le> y \<and> y \<le> 10))"
proof (intro conjI impI)
  assume "map_of ms ''score'' = Some (JNum x)"
  then show "\<exists>y. getProp (finishAnalysis (JObj ms)) ''score'' = Inr (Some (JNum y))
           \<and> 0 \<le> y \<and> y \<le> 10
           \<and> (x > 10 \<longrightarrow> y = max 0 (min 10 (x / 10)))
           \<and> (x \<le> 10 \<longrightarrow> y = max 0 x)
           \<and> (x = 85 \<longrightarrow> y = 8.5)"
    by (auto simp: finishAnalysis_def normalizeScore_def coerceArray_obj map_of_putMember
                   Let_def)
next
  assume "analyzeResponse env q r ts w = (Inr analysis, w')"
  from analyzeResponse_Inr [OF this] obtain content result where
    p: "parseJsonResponse content analysisFields = Inr result"
    and a: "analysis = finishAnalysis result" by auto
  from parseJsonResponse_Inr [OF p] have m: "missingOf analysisFields result = Inr []" .
  have "''score'' \<in> set analysisFields" by (simp add: analysisFields_def)
  from missingOf_nil_plain [OF m this plain_names(9)]
  obtain ms' where ms': "result = JObj ms'" by auto
  from normalizeScore_range [of "map_of ms' ''score''"]
  obtain y where y: "normalizeScore (map_of ms' ''score'') = JNum y" "0 \<le> y" "y \<le> 10"
    by auto
  have "getProp (finishAnalysis (JObj ms')) ''score''
          = Inr (Some (normalizeScore (map_of ms' ''score'')))"
    by (simp add: finishAnalysis_def coerceArray_obj map_of_putMember Let_def)
  with a ms' y show "\<exists>y. getProp analysis ''score'' = Inr (Some (JNum y)) \<and> 0 \<le> y \<and> y \<le> 10"
    by auto
qed

theorem score_normalised_witness:
  \<open>analyzeResponse
      \<lparr>GROQ_API_KEY = Some ''key'', timerLag = 0, latency = 120,
        remote = (\<lambda>p. HttpResponse 200 ''OK''
            (''{"choices":[{"message":{"content":"{'' @ [backslash] @ ''"score''
             @ [backslash] @ ''": 85, '' @ [backslash] @ ''"feedback'' @ [backslash] @ ''": ''
             @ [backslash] @ ''"ok'' @ [backslash] @ ''", '' @ [backslash]
             @ ''"coveredTopics'' @ [backslash] @ ''": [], '' @ [backslash]
             @ ''"missingTopics'' @ [backslash] @ ''": []}"}}]}''))\<rparr>
      ''What is a list?'' ''A sequence.'' [''x'', ''y'']
      \<lparr>clock = 5000, lastRequestTime = 0, requests = []\<rparr>
    = (Inr (JObj [(''score'', JNum 8.5), (''feedback'', JStr ''ok''),
                  (''coveredTopics'', JArr []), (''missingTopics'', JArr [])]),
       \<lparr>clock = 5120, lastRequestTime = 5000,
        requests = [analysisPrompt ''What is a list?'' ''A sequence.'' [''x'', ''y'']]\<rparr>)
   \<and> getProp (finishAnalysis (JObj [(''score'', JNum 85), (''feedback'', JStr ''ok''),
           (''coveredTopics'', JArr []), (''missingTopics'', JArr [])])) ''score''
       = Inr (Some (JNum 8.5))\<close>
proof -
  have h: "map_of [(''score'', JNum 85), (''feedback'', JStr ''ok''),
           (''coveredTopics'', JArr []), (''missingTopics'', JArr [])] ''score'' = Some (JNum 85)"
    by simp
  have e: \<open>analyzeResponse
      \<lparr>GROQ_API_KEY = Some ''key'', timerLag = 0, latency = 120,
        remote = (\<lambda>p. HttpResponse 200 ''OK''
            (''{"choices":[{"message":{"content":"{'' @ [backslash] @ ''"score''
             @ [backslash] @ ''": 85, '' @ [backslash] @ ''"feedback'' @ [backslash] @ ''": ''
             @ [backslash] @ ''"ok'' @ [backslash] @ ''", '' @ [backslash]
             @ ''"coveredTopics'' @ [backslash] @ ''": [], '' @ [backslash]
             @ ''"missingTopics'' @ [backslash] @ ''": []}"}}]}''))\<rparr>
      ''What is a list?'' ''A sequence.'' [''x'', ''y'']
      \<lparr>clock = 5000, lastRequestTime = 0, requests = []\<rparr>
    = (Inr (JObj [(''score'', JNum 8.5), (''feedback'', JStr ''ok''),
                  (''coveredTopics'', JArr []), (''missingTopics'', JArr [])]),
       \<lparr>clock = 5120, lastRequestTime = 5000,
        requests = [analysisPrompt ''What is a list?'' ''A sequence.'' [''x'', ''y'']]\<rparr>)\<close>
    by code_simp
  note t = score_normalised
         [of "[(''score'', JNum 85), (''feedback'', JStr ''ok''),
               (''coveredTopics'', JArr []), (''missingTopics'', JArr [])]" 85
             "\<lparr>GROQ_API_KEY = Some ''key'', timerLag = 0, latency = 120,
               remote = (\<lambda>p. HttpResponse 200 ''OK''
            (''{\"choices\":[{\"message\":{\"content\":\"{'' @ [backslash] @ ''\"score''
             @ [backslash] @ ''\": 85, '' @ [backslash] @ ''\"feedback'' @ [backslash] @ ''\": ''
             @ [backslash] @ ''\"ok'' @ [backslash] @ ''\", '' @ [backslash]
             @ ''\"coveredTopics'' @ [backslash] @ ''\": [], '' @ [backslash]
             @ ''\"missingTopics'' @ [backslash] @ ''\": []}\"}}]}''))\<rparr>"
             "''What is a list?''" "''A sequence.''" "[''x'', ''y'']"
             "\<lparr>clock = 5000, lastRequestTime = 0, requests = []\<rparr>"]
  from t h have "\<exists>y. getProp (finishAnalysis (JObj [(''score'', JNum 85),
           (''feedback'', JStr ''ok''), (''coveredTopics'', JArr []),
           (''missingTopics'', JArr [])])) ''score'' = Inr (Some (JNum y)) \<and> y = 8.5"
    by blast
  then have g: "getProp (finishAnalysis (JObj [(''score'', JNum 85),
           (''feedback'', JStr ''ok''), (''coveredTopics'', JArr []),
           (''missingTopics'', JArr [])])) ''score'' = Inr (Some (JNum 8.5))"
    by blast
  from t e have "\<exists>y. getProp (JObj [(''score'', JNum 8.5), (''feedback'', JStr ''ok''),
                  (''coveredTopics'', JArr []), (''missingTopics'', JArr [])]) ''score''
        = Inr (Some (JNum y)) \<and> 0 \<le> y \<and> y \<le> 10"
    by blast
  from e g show ?thesis by (rule conjI)
qed

subsection \<open>The rate limiter and the model client\<close>

text \<open>
  C9. Take two calls of \<open>waitForRateLimit\<close>, one after the other, with any time passing
  between them and nothing else writing \<open>lastRequestTime\<close>. Each call returns, and leaves
  \<open>lastRequestTime\<close> equal to the clock at its return. The second call returns at least
  3000 ms after the time the first call recorded, and no later than the timer lag after
  that moment or after its own start, whichever is later. The clock is one that does not
  go backwards, and a timer fires at its delay or later.
\<close>

theorem waitForRateLimit_spacing:
  "(let w1 = waitForRateLimit env1 w0;
        w1' = w1\<lparr>clock := clock w1 + int elapsed\<rparr>;
        w2 = waitForRateLimit env2 w1'
    in lastRequestTime w1 = clock w1
     \<and> lastRequestTime w2 = clock w2
     \<and> lastRequestTime w1 + MIN_REQUEST_INTERVAL \<le> clock w2
     \<and> clock w2 \<le> max (clock w1') (lastRequestTime w1 + MIN_REQUEST_INTERVAL)
                    + int (timerLag env2)
     \<and> requests w2 = requests w0)"
  by (simp add: waitForRateLimit_def sleep_def MIN_REQUEST_INTERVAL_def Let_def)

text \<open>
  C10. When no key is configured, \<open>makeGroqRequest\<close>, \<open>generateQuestion\<close> and
  \<open>analyzeResponse\<close> fail with the configuration error and leave the state as it was: the
  rate limiter has not run, \<open>lastRequestTime\<close> is the same and no request has been sent.
\<close>

theorem no_key_no_request:
  assumes "keyMissing env"
  shows "makeGroqRequest env prompt w = (Inl (Error ''GROQ API key is not configured''), w)
       \<and> generateQuestion env technology difficulty questionNumber questionType w
           = (Inl (Error ''GROQ API key is not configured''), w)
       \<and> analyzeResponse env question response expectedTopics w
           = (Inl (Error ''GROQ API key is not configured''), w)"
  using assms
  by (simp add: makeGroqRequest_def generateQuestion_def analyzeResponse_def bindE_def)

theorem no_key_no_request_witness:
  "keyMissing \<lparr>GROQ_API_KEY = None, timerLag = 0, latency = 0, remote = (\<lambda>p. NetworkFailure)\<rparr>
   \<and> lastRequestTime (snd (makeGroqRequest
         \<lparr>GROQ_API_KEY = None, timerLag = 0, latency = 0, remote = (\<lambda>p. NetworkFailure)\<rparr>
         ''hello'' \<lparr>clock = 5000, lastRequestTime = 1000, requests = []\<rparr>)) = 1000
   \<and> requests (snd (makeGroqRequest
         \<lparr>GROQ_API_KEY = None, timerLag = 0, latency = 0, remote = (\<lambda>p. NetworkFailure)\<rparr>
         ''hello'' \<lparr>clock = 5000, lastRequestTime = 1000, requests = []\<rparr>)) = []"
proof -
  have k: "keyMissing \<lparr>GROQ_API_KEY = None, timerLag = 0, latency = 0,
                        remote = (\<lambda>p. NetworkFailure)\<rparr>"
    by (simp add: keyMissing_def)
  from no_key_no_request [OF k, of "''hello''"
         "\<lparr>clock = 5000, lastRequestTime = 1000, requests = []\<rparr>"] k
  show ?thesis by simp
qed

subsection \<open>The question route\<close>

text \<open>
  C5. The question route lowers the case of the difficulty before it builds the prompt,
  and the templates compare the difficulty with \<open>Easy\<close> and \<open>Medium\<close>. For the request
  with technology Python, difficulty Easy, type mcq and number 1, the prompt sent to the
  API is the one for the difficulty \<open>easy\<close>: it carries the tier 3 and not the tier 1
  that the prompt for \<open>Easy\<close> carries. The tier of a lowered difficulty is 3 whatever
  the request says.
\<close>

theorem route_tier_is_three:
  \<open>requests (snd (POST_question
      \<lparr>GROQ_API_KEY = Some ''key'', timerLag = 0, latency = 120,
        remote = (\<lambda>p. HttpResponse 429 ''Too Many Requests'' '''')\<rparr>
      \<lparr>q_technology = Some ''Python'', q_difficulty = Some ''Easy'', q_questionNumber = 1,
        q_questionType = Some ''mcq''\<rparr>
      \<lparr>clock = 5000, lastRequestTime = 0, requests = []\<rparr>))
    = [generateQuestionPrompt ''Python'' ''easy'' 1 ''mcq'']
   \<and> str_includes (generateQuestionPrompt ''Python'' ''easy'' 1 ''mcq'') ''"difficulty": 3,''
   \<and> \<not> str_includes (generateQuestionPrompt ''Python'' ''easy'' 1 ''mcq'') ''"difficulty": 1''
   \<and> str_includes (generateQuestionPrompt ''Python'' ''Easy'' 1 ''mcq'') ''"difficulty": 1,''
   \<and> (\<forall>d. difficultyTier (toLowerCase (trim d)) = 3)\<close>
proof -
  have a: \<open>requests (snd (POST_question
      \<lparr>GROQ_API_KEY = Some ''key'', timerLag = 0, latency = 120,
        remote = (\<lambda>p. HttpResponse 429 ''Too Many Requests'' '''')\<rparr>
      \<lparr>q_technology = Some ''Python'', q_difficulty = Some ''Easy'', q_questionNumber = 1,
        q_questionType = Some ''mcq''\<rparr>
      \<lparr>clock = 5000, lastRequestTime = 0, requests = []\<rparr>))
    = [generateQuestionPrompt ''Python'' ''easy'' 1 ''mcq'']\<close>
    by code_simp
  have b: \<open>str_includes (generateQuestionPrompt ''Python'' ''easy'' 1 ''mcq'') ''"difficulty": 3,''\<close>
    by code_simp
  have c: \<open>\<not> str_includes (generateQuestionPrompt ''Python'' ''easy'' 1 ''mcq'') ''"difficulty": 1''\<close>
    by code_simp
  have d: \<open>str_includes (generateQuestionPrompt ''Python'' ''Easy'' 1 ''mcq'') ''"difficulty": 1,''\<close>
    by code_simp
  from a b c d difficultyTier_toLowerCase show ?thesis by blast
qed

text \<open>
  C8. The API answers the question route's request with status 429. \<open>makeGroqRequest\<close>
  throws the error \<open>Rate limit exceeded\<close>; the route looks for \<open>rate limit\<close> in the
  message, which is not there with this spelling, and answers with status 500 and the
  message of the error instead of its own response with status 429.
\<close>

theorem rate_limit_surfaces_as_500:
  "POST_question
      \<lparr>GROQ_API_KEY = Some ''key'', timerLag = 0, latency = 120,
        remote = (\<lambda>p. HttpResponse 429 ''Too Many Requests'' '''')\<rparr>
      \<lparr>q_technology = Some ''Python'', q_difficulty = Some ''Easy'', q_questionNumber = 1,
        q_questionType = Some ''mcq''\<rparr>
      \<lparr>clock = 5000, lastRequestTime = 0, requests = []\<rparr>
    = (Response 500 (JObj [(''error'', JStr ''Rate limit exceeded'')]),
       \<lparr>clock = 5120, lastRequestTime = 5000,
        requests = [generateQuestionPrompt ''Python'' ''easy'' 1 ''mcq'']\<rparr>)
   \<and> \<not> str_includes ''Rate limit exceeded'' ''rate limit''"
  by code_simp

subsection \<open>The question validator\<close>

lemma validateMcq_Inr:
  assumes "validateMcq modelAnswer = Inr u"
  shows "\<exists>ma opts co e. modelAnswer = Some (JObj ma)
           \<and> map_of ma ''options'' = Some (JObj opts)
           \<and> set requiredOptions \<subseteq> fst ` set opts
           \<and> map_of ma ''correctOption'' = Some (JStr co) \<and> co \<in> set requiredOptions
           \<and> map_of ma ''explanation'' = Some (JStr e) \<and> e \<noteq> []"
proof -
  from assms obtain options where
    o1: "getPropOpt modelAnswer ''options'' = Inr (Some options)"
    and o2: "truthy options" "isObjectType (Some options)"
    and rest1: "bindE (missingOf requiredOptions options) (\<lambda>missingOptions.
               if length missingOptions > 0
               then Inl (Error (''Missing MCQ options: '' @ join '', '' missingOptions))
               else
                 bindE (getPropOpt modelAnswer ''correctOption'') (\<lambda>correctOption.
                   if \<not> truthyOpt correctOption \<or> \<not> isRequiredOption correctOption
                   then Inl (Error
                     ''MCQ response must include a valid correctOption (A, B, C, or D)'')
                   else
                     bindE (getPropOpt modelAnswer ''explanation'') (\<lambda>explanation.
                       if \<not> truthyOpt explanation \<or> \<not> isString explanation
                       then Inl (Error ''MCQ response must include an explanation'')
                       else Inr ()))) = Inr u"
    by (auto simp: validateMcq_def bindE_def split: sum.splits option.splits if_splits)
  from o1 obtain ma where ma: "modelAnswer = Some (JObj ma)" "map_of ma ''options'' = Some options"
    by (cases modelAnswer; cases "the modelAnswer")
       (auto simp: getPropOpt_def split: option.splits)
  from rest1 have m: "missingOf requiredOptions options = Inr []"
    and rest2: "bindE (getPropOpt modelAnswer ''correctOption'') (\<lambda>correctOption.
                   if \<not> truthyOpt correctOption \<or> \<not> isRequiredOption correctOption
                   then Inl (Error
                     ''MCQ response must include a valid correctOption (A, B, C, or D)'')
                   else
                     bindE (getPropOpt modelAnswer ''explanation'') (\<lambda>explanation.
                       if \<not> truthyOpt explanation \<or> \<not> isString explanation
                       then Inl (Error ''MCQ response must include an explanation'')
                       else Inr ())) = Inr u"
    by (auto simp: bindE_def split: sum.splits if_splits)
  from missingOf_nil_plain [OF m, of "''A''"] plain_names
  obtain opts where opts: "options = JObj opts" by (auto simp: requiredOptions_def)
  have sub: "set requiredOptions \<subseteq> fst ` set opts"
  proof
    fix l assume l: "l \<in> set requiredOptions"
    then have "plainName l" using plain_names by (auto simp: requiredOptions_def)
    from missingOf_nil_plain [OF m l this] opts show "l \<in> fst ` set opts" by simp
  qed
  from rest2 ma obtain co where co: "map_of ma ''correctOption'' = Some (JStr co)"
      "co \<in> set requiredOptions"
    and rest3: "bindE (getPropOpt modelAnswer ''explanation'') (\<lambda>explanation.
                       if \<not> truthyOpt explanation \<or> \<not> isString explanation
                       then Inl (Error ''MCQ response must include an explanation'')
                       else Inr ()) = Inr u"
    by (auto simp: bindE_def getPropOpt_def isRequiredOption_def
             split: sum.splits if_splits option.splits json.splits)
  from rest3 ma obtain e where "map_of ma ''explanation'' = Some (JStr e)" "e \<noteq> []"
    by (auto simp: bindE_def getPropOpt_def isString_def truthyOpt_def
             split: sum.splits if_splits option.splits json.splits)
  with ma opts sub co show ?thesis by auto
qed


lemma validateQuestionResponse_Inr:
  assumes "validateQuestionResponse r qt = Inr v"
  shows "v = r \<and> (\<exists>ms. r = JObj ms \<and>
           (if toLowerCase qt = ''mcq'' then validateMcq (map_of ms ''modelAnswer'')
            else if toLowerCase qt = ''coding'' then validateCoding (map_of ms ''modelAnswer'')
            else validateOther (map_of ms ''modelAnswer'')) = Inr ())"
proof -
  from assms have m: "missingOf defaultRequiredFields r = Inr []"
    by (auto simp: validateQuestionResponse_def bindE_def split: sum.splits if_splits)
  from missingOf_nil_plain [OF m, of "''question''"] plain_names
  obtain ms where ms: "r = JObj ms" by (auto simp: defaultRequiredFields_def)
  from assms ms show ?thesis
    by (auto simp: validateQuestionResponse_def bindE_def split: sum.splits if_splits)
qed

lemma validateMcq_ok:
  assumes "map_of ma ''options'' = Some (JObj opts)"
    and "set requiredOptions \<subseteq> fst ` set opts"
    and "map_of ma ''correctOption'' = Some (JStr co)" and "co \<in> set requiredOptions"
    and "map_of ma ''explanation'' = Some (JStr e)" and "e \<noteq> []"
  shows "validateMcq (Some (JObj ma)) = Inr ()"
proof -
  from assms(2) have "missingOf requiredOptions (JObj opts) = Inr []"
    by (auto simp: missingOf_obj filter_empty_conv)
  moreover from assms(4) have "co \<noteq> []" by (auto simp: requiredOptions_def)
  ultimately show ?thesis using assms
    by (simp add: validateMcq_def bindE_def getPropOpt_def isObjectType_def truthyOpt_def
                  isRequiredOption_def isString_def)
qed

lemma validateMcq_missing_option:
  assumes "map_of ma ''options'' = Some (JObj opts)"
    and "l \<in> set requiredOptions" and "l \<notin> fst ` set opts"
  shows "validateMcq (Some (JObj ma)) =
           Inl (Error (''Missing MCQ options: ''
                  @ join '', '' (filter (\<lambda>f. f \<notin> fst ` set opts) requiredOptions)))"
proof -
  have "filter (\<lambda>f. f \<notin> fst ` set opts \<and> f \<notin> set objectPrototypeNames) requiredOptions
      = filter (\<lambda>f. f \<notin> fst ` set opts) requiredOptions"
    by (rule filter_cong) (auto simp: requiredOptions_def objectPrototypeNames_def)
  moreover from assms(2,3) have "filter (\<lambda>f. f \<notin> fst ` set opts) requiredOptions \<noteq> []"
    by (auto simp: filter_empty_conv)
  ultimately show ?thesis using assms(1)
    by (simp add: validateMcq_def bindE_def getPropOpt_def isObjectType_def missingOf_obj)
qed

text \<open>
  C7. For a question type that is \<open>mcq\<close> in any case, the validator rejects a payload
  whose \<open>modelAnswer.options\<close> lacks one of the labels A, B, C, D, and rejects a payload
  whose \<open>modelAnswer.correctOption\<close> is not one of these labels as a string. It accepts,
  and returns unchanged, a payload that has a question, an array of expected topics, a
  numeric difficulty and a model answer with all four options, a correct option among
  the labels and a non-empty explanation string.
\<close>

theorem validate_mcq:
  assumes "toLowerCase qt = ''mcq''"
  shows "(r1 = JObj ms1 \<and> map_of ms1 ''modelAnswer'' = Some (JObj ma1)
            \<and> map_of ma1 ''options'' = Some (JObj opts1)
            \<and> l \<in> set requiredOptions \<and> l \<notin> fst ` set opts1
          \<longrightarrow> isl (validateQuestionResponse r1 qt))
       \<and> (r2 = JObj ms2 \<and> map_of ms2 ''modelAnswer'' = Some (JObj ma2)
            \<and> map_of ma2 ''correctOption'' \<notin> (\<lambda>c. Some (JStr c)) ` set requiredOptions
          \<longrightarrow> isl (validateQuestionResponse r2 qt))
       \<and> (r = JObj ms \<and> ''question'' \<in> fst ` set ms
            \<and> map_of ms ''expectedTopics'' = Some (JArr ts)
            \<and> map_of ms ''difficulty'' = Some (JNum d)
            \<and> map_of ms ''modelAnswer'' = Some (JObj ma)
            \<and> map_of ma ''options'' = Some (JObj opts)
            \<and> set requiredOptions \<subseteq> fst ` set opts
            \<and> map_of ma ''correctOption'' = Some (JStr co) \<and> co \<in> set requiredOptions
            \<and> map_of ma ''explanation'' = Some (JStr e) \<and> e \<noteq> []
          \<longrightarrow> validateQuestionResponse r qt = Inr r)"
proof (intro conjI impI)
  assume a: "r1 = JObj ms1 \<and> map_of ms1 ''modelAnswer'' = Some (JObj ma1)
            \<and> map_of ma1 ''options'' = Some (JObj opts1)
            \<and> l \<in> set requiredOptions \<and> l \<notin> fst ` set opts1"
  show "isl (validateQuestionResponse r1 qt)"
  proof (rule ccontr)
    assume "\<not> isl (validateQuestionResponse r1 qt)"
    then obtain v where "validateQuestionResponse r1 qt = Inr v"
      by (cases "validateQuestionResponse r1 qt") auto
    from validateQuestionResponse_Inr [OF this] assms a
    have "validateMcq (Some (JObj ma1)) = Inr ()" by auto
    from validateMcq_Inr [OF this] a show False by auto
  qed
next
  assume a: "r2 = JObj ms2 \<and> map_of ms2 ''modelAnswer'' = Some (JObj ma2)
            \<and> map_of ma2 ''correctOption'' \<notin> (\<lambda>c. Some (JStr c)) ` set requiredOptions"
  show "isl (validateQuestionResponse r2 qt)"
  proof (rule ccontr)
    assume "\<not> isl (validateQuestionResponse r2 qt)"
    then obtain v where "validateQuestionResponse r2 qt = Inr v"
      by (cases "validateQuestionResponse r2 qt") auto
    from validateQuestionResponse_Inr [OF this] assms a
    have "validateMcq (Some (JObj ma2)) = Inr ()" by auto
    from validateMcq_Inr [OF this] a show False by auto
  qed
next
  assume a: "r = JObj ms \<and> ''question'' \<in> fst ` set ms
            \<and> map_of ms ''expectedTopics'' = Some (JArr ts)
            \<and> map_of ms ''difficulty'' = Some (JNum d)
            \<and> map_of ms ''modelAnswer'' = Some (JObj ma)
            \<and> map_of ma ''options'' = Some (JObj opts)
            \<and> set requiredOptions \<subseteq> fst ` set opts
            \<and> map_of ma ''correctOption'' = Some (JStr co) \<and> co \<in> set requiredOptions
            \<and> map_of ma ''explanation'' = Some (JStr e) \<and> e \<noteq> []"
  then have mcq: "validateMcq (Some (JObj ma)) = Inr ()"
    using validateMcq_ok [of ma opts co e] by simp
  from a have keys: "''expectedTopics'' \<in> fst ` set ms" "''difficulty'' \<in> fst ` set ms"
      "''modelAnswer'' \<in> fst ` set ms"
    by (auto dest!: map_of_SomeD intro: rev_image_eqI)
  with a have "missingOf defaultRequiredFields r = Inr []"
    by (simp add: missingOf_obj defaultRequiredFields_def)
  with a mcq assms show "validateQuestionResponse r qt = Inr r"
    by (simp add: validateQuestionResponse_def bindE_def isArray_def isNumber_def)
qed

theorem validate_mcq_witness:
  "toLowerCase ''MCQ'' = ''mcq''
   \<and> isl (validateQuestionResponse
        (JObj [(''question'', JStr ''Q''), (''expectedTopics'', JArr [JStr ''t'']),
               (''difficulty'', JNum 1),
               (''modelAnswer'', JObj
                  [(''options'', JObj [(''A'', JStr ''a''), (''B'', JStr ''b''), (''D'', JStr ''d'')]),
                   (''correctOption'', JStr ''B''), (''explanation'', JStr ''because'')])]) ''MCQ'')
   \<and> isl (validateQuestionResponse
        (JObj [(''question'', JStr ''Q''), (''expectedTopics'', JArr [JStr ''t'']),
               (''difficulty'', JNum 1),
               (''modelAnswer'', JObj
                  [(''options'', JObj [(''A'', JStr ''a''), (''B'', JStr ''b''),
                                       (''C'', JStr ''c''), (''D'', JStr ''d'')]),
                   (''correctOption'', JStr ''E''), (''explanation'', JStr ''because'')])]) ''MCQ'')
   \<and> validateQuestionResponse
        (JObj [(''question'', JStr ''Q''), (''expectedTopics'', JArr [JStr ''t'']),
               (''difficulty'', JNum 1),
               (''modelAnswer'', JObj
                  [(''options'', JObj [(''A'', JStr ''a''), (''B'', JStr ''b''),
                                       (''C'', JStr ''c''), (''D'', JStr ''d'')]),
                   (''correctOption'', JStr ''B''), (''explanation'', JStr ''because'')])]) ''MCQ''
       = Inr (JObj [(''question'', JStr ''Q''), (''expectedTopics'', JArr [JStr ''t'']),
               (''difficulty'', JNum 1),
               (''modelAnswer'', JObj
                  [(''options'', JObj [(''A'', JStr ''a''), (''B'', JStr ''b''),
                                       (''C'', JStr ''c''), (''D'', JStr ''d'')]),
                   (''correctOption'', JStr ''B''), (''explanation'', JStr ''because'')])])"
proof -
  let ?o3 = "[(''A'', JStr ''a''), (''B'', JStr ''b''), (''D'', JStr ''d'')]"
  let ?o4 = "[(''A'', JStr ''a''), (''B'', JStr ''b''), (''C'', JStr ''c''), (''D'', JStr ''d'')]"
  let ?ma1 = "[(''options'', JObj ?o3), (''correctOption'', JStr ''B''),
               (''explanation'', JStr ''because'')]"
  let ?ma2 = "[(''options'', JObj ?o4), (''correctOption'', JStr ''E''),
               (''explanation'', JStr ''because'')]"
  let ?ma = "[(''options'', JObj ?o4), (''correctOption'', JStr ''B''),
              (''explanation'', JStr ''because'')]"
  let ?ms1 = "[(''question'', JStr ''Q''), (''expectedTopics'', JArr [JStr ''t'']),
               (''difficulty'', JNum 1), (''modelAnswer'', JObj ?ma1)]"
  let ?ms2 = "[(''question'', JStr ''Q''), (''expectedTopics'', JArr [JStr ''t'']),
               (''difficulty'', JNum 1), (''modelAnswer'', JObj ?ma2)]"
  let ?ms = "[(''question'', JStr ''Q''), (''expectedTopics'', JArr [JStr ''t'']),
              (''difficulty'', JNum 1), (''modelAnswer'', JObj ?ma)]"
  have lc: "toLowerCase ''MCQ'' = ''mcq''" by code_simp
  from validate_mcq [OF lc, of "JObj ?ms1" ?ms1 ?ma1 ?o3 "''C''"
                       "JObj ?ms2" ?ms2 ?ma2
                       "JObj ?ms" ?ms "[JStr ''t'']" 1 ?ma ?o4 "''B''" "''because''"]
  show ?thesis using lc by (simp add: requiredOptions_def)
qed

subsection \<open>Topics of the analysis\<close>

lemma makeGroqRequest_ok:
  assumes "\<not> keyMissing env"
    and "remote env prompt = HttpResponse status statusText body"
    and "responseOk status"
  shows "fst (makeGroqRequest env prompt w) = JSON_parse body"
  using assms by (simp add: makeGroqRequest_def Let_def)

lemma analyzeResponse_completion:
  assumes "\<not> keyMissing env"
    and "remote env (analysisPrompt q r ts) = HttpResponse status statusText body"
    and "responseOk status"
    and "JSON_parse body = Inr apiResponse"
    and "completionContent apiResponse = Some content"
    and "truthy content"
  shows "fst (analyzeResponse env q r ts w) =
           bindE (parseJsonResponse content analysisFields) (\<lambda>result.
             Inr (finishAnalysis result))"
proof -
  obtain res w1 where m: "makeGroqRequest env (analysisPrompt q r ts) w = (res, w1)"
    by (cases "makeGroqRequest env (analysisPrompt q r ts) w")
  with makeGroqRequest_ok [OF assms(1,2,3), of w] assms(4) have "res = Inr apiResponse"
    by simp
  with m assms(1,5,6) show ?thesis
    by (simp add: analyzeResponse_def Let_def bindE_def)
qed

lemma missingOf_analysisFields:
  "missingOf analysisFields (JObj ms) =
     Inr (filter (\<lambda>f. f \<notin> fst ` set ms) analysisFields)"
proof -
  have "filter (\<lambda>f. f \<notin> fst ` set ms \<and> f \<notin> set objectPrototypeNames) analysisFields
      = filter (\<lambda>f. f \<notin> fst ` set ms) analysisFields"
    by (rule filter_cong) (auto simp: analysisFields_def objectPrototypeNames_def)
  then show ?thesis by (simp add: missingOf_obj)
qed

lemma parseAndCheck_analysis:
  assumes "JSON_parse candidate = Inr (JObj ms)"
  shows "parseAndCheck label candidate analysisFields =
           (if set analysisFields \<subseteq> fst ` set ms then Inr (JObj ms)
            else Inl (Error (label @ join '', ''
                        (filter (\<lambda>f. f \<notin> fst ` set ms) analysisFields))))"
proof -
  have "filter (\<lambda>f. f \<notin> fst ` set ms) analysisFields = []
          \<longleftrightarrow> set analysisFields \<subseteq> fst ` set ms"
    by (auto simp: filter_empty_conv)
  with assms show ?thesis
    by (simp add: parseAndCheck_def missingOf_analysisFields)
qed


text \<open>
  C6, as the claim states it, fails: the model answers with a JSON object that has no
  \<open>coveredTopics\<close>. The text parses, but \<open>parseJsonResponse\<close> requires the four fields
  \<open>score\<close>, \<open>feedback\<close>, \<open>coveredTopics\<close> and \<open>missingTopics\<close>, and \<open>analyzeResponse\<close>
  throws instead of returning an analysis with an empty sequence.
\<close>

theorem omitted_topics_fail:
  \<open>JSON_parse (''{"score": 7, "feedback": "ok", "missingTopics": ["y"]}'')
     = Inr (JObj [(''score'', JNum 7), (''feedback'', JStr ''ok''),
                  (''missingTopics'', JArr [JStr ''y''])])
   \<and> fst (analyzeResponse
      \<lparr>GROQ_API_KEY = Some ''key'', timerLag = 0, latency = 120,
        remote = (\<lambda>p. HttpResponse 200 ''OK''
            (''{"choices":[{"message":{"content":"{'' @ [backslash] @ ''"score''
             @ [backslash] @ ''": 7, '' @ [backslash] @ ''"feedback'' @ [backslash]
             @ ''": '' @ [backslash] @ ''"ok'' @ [backslash] @ ''", '' @ [backslash]
             @ ''"missingTopics'' @ [backslash] @ ''": ['' @ [backslash] @ ''"y''
             @ [backslash] @ ''"]}"}}]}''))\<rparr>
      ''What is a list?'' ''A sequence.'' [''x'', ''y'']
      \<lparr>clock = 5000, lastRequestTime = 0, requests = []\<rparr>)
     = Inl (Error (''Failed to parse response as JSON: ''
              @ ''Missing required fields after cleaning: coveredTopics''
              @ [newline] @ ''Response: ''
              @ ''{"score": 7, "feedback": "ok", "missingTopics": ["y"]}''))\<close>
  by code_simp

text \<open>
  C6, amended. The API answers the request of \<open>analyzeResponse\<close> with a completion, and
  the span of the completion from its first \<open>{\<close> to its last \<open>}\<close> parses to an object.
  When the object has the four fields \<open>score\<close>, \<open>feedback\<close>, \<open>coveredTopics\<close> and
  \<open>missingTopics\<close>, the analysis is made from this object, and in it \<open>coveredTopics\<close> and
  \<open>missingTopics\<close> are the values of the object where these are arrays and the empty
  array where they are not. When the object lacks one of the four fields, nothing is
  put in its place: the result is that of the second attempt, which parses the
  repaired span and checks the four fields again, and is the error of this attempt
  when it fails. In particular, when the repairs leave the span as it is, the result
  is the error that names the missing fields.
\<close>

theorem topics_from_completion:
  assumes "\<not> keyMissing env"
    and "remote env (analysisPrompt q r ts) = HttpResponse status statusText body"
    and "responseOk status"
    and "JSON_parse body = Inr apiResponse"
    and "completionContent apiResponse = Some (JStr completion)"
    and "jsonMatch completion = Some candidate"
    and "JSON_parse candidate = Inr (JObj ms)"
  shows "fst (analyzeResponse env q r ts w) =
           (if set analysisFields \<subseteq> fst ` set ms then Inr (finishAnalysis (JObj ms))
            else case parseAndCheck ''Missing required fields after cleaning: ''
                        (repair candidate) analysisFields of
                   Inr result \<Rightarrow> Inr (finishAnalysis result)
                 | Inl finalError \<Rightarrow>
                     Inl (Error (''Failed to parse response as JSON: '' @ message finalError
                                 @ newline # ''Response: '' @ repair candidate)))
       \<and> getProp (finishAnalysis (JObj ms)) ''coveredTopics'' =
             Inr (Some (case map_of ms ''coveredTopics'' of
                          Some (JArr xs) \<Rightarrow> JArr xs | _ \<Rightarrow> JArr []))
       \<and> getProp (finishAnalysis (JObj ms)) ''missingTopics'' =
             Inr (Some (case map_of ms ''missingTopics'' of
                          Some (JArr xs) \<Rightarrow> JArr xs | _ \<Rightarrow> JArr []))
       \<and> (\<not> set analysisFields \<subseteq> fst ` set ms \<and> repair candidate = candidate \<longrightarrow>
            fst (analyzeResponse env q r ts w) =
              Inl (Error (''Failed to parse response as JSON: ''
                     @ ''Missing required fields after cleaning: ''
                     @ join '', '' (filter (\<lambda>f. f \<notin> fst ` set ms) analysisFields)
                     @ newline # ''Response: '' @ candidate)))"
proof -
  from assms(6) have ne: "completion \<noteq> []" by (auto simp: jsonMatch_def)
  then have "truthy (JStr completion)" by simp
  from analyzeResponse_completion [OF assms(1-5) this]
  have a: "fst (analyzeResponse env q r ts w) =
             bindE (parseJsonResponse (JStr completion) analysisFields) (\<lambda>result.
               Inr (finishAnalysis result))" .
  note first = parseAndCheck_analysis [OF assms(7), of "''Missing required fields: ''"]
  have main: "fst (analyzeResponse env q r ts w) =
           (if set analysisFields \<subseteq> fst ` set ms then Inr (finishAnalysis (JObj ms))
            else case parseAndCheck ''Missing required fields after cleaning: ''
                        (repair candidate) analysisFields of
                   Inr result \<Rightarrow> Inr (finishAnalysis result)
                 | Inl finalError \<Rightarrow>
                     Inl (Error (''Failed to parse response as JSON: '' @ message finalError
                                 @ newline # ''Response: '' @ repair candidate)))"
  proof (cases "set analysisFields \<subseteq> fst ` set ms")
    case True
    with a ne assms(6) first show ?thesis
      by (simp add: parseJsonResponse_def bindE_def)
  next
    case False
    with a ne assms(6) first show ?thesis
      by (simp add: parseJsonResponse_def bindE_def split: sum.splits)
  qed
  have second: "\<not> set analysisFields \<subseteq> fst ` set ms \<and> repair candidate = candidate \<longrightarrow>
            fst (analyzeResponse env q r ts w) =
              Inl (Error (''Failed to parse response as JSON: ''
                     @ ''Missing required fields after cleaning: ''
                     @ join '', '' (filter (\<lambda>f. f \<notin> fst ` set ms) analysisFields)
                     @ newline # ''Response: '' @ candidate))"
  proof
    assume h: "\<not> set analysisFields \<subseteq> fst ` set ms \<and> repair candidate = candidate"
    with parseAndCheck_analysis
           [OF assms(7), of "''Missing required fields after cleaning: ''"]
    have "parseAndCheck ''Missing required fields after cleaning: ''
            (repair candidate) analysisFields
          = Inl (Error (''Missing required fields after cleaning: ''
                   @ join '', '' (filter (\<lambda>f. f \<notin> fst ` set ms) analysisFields)))"
      by simp
    with main h show "fst (analyzeResponse env q r ts w) =
              Inl (Error (''Failed to parse response as JSON: ''
                     @ ''Missing required fields after cleaning: ''
                     @ join '', '' (filter (\<lambda>f. f \<notin> fst ` set ms) analysisFields)
                     @ newline # ''Response: '' @ candidate))"
      by simp
  qed
  from main finishAnalysis_covered [of ms] finishAnalysis_missing [of ms] second
  show ?thesis by (intro conjI)
qed


theorem topics_from_completion_witness:
  \<open>fst (analyzeResponse
      \<lparr>GROQ_API_KEY = Some ''key'', timerLag = 0, latency = 120,
        remote = (\<lambda>p. HttpResponse 200 ''OK''
            (''{"choices":[{"message":{"content":"{'' @ [backslash] @ ''"score''
             @ [backslash] @ ''": 7, '' @ [backslash] @ ''"feedback'' @ [backslash]
             @ ''": '' @ [backslash] @ ''"ok'' @ [backslash] @ ''", '' @ [backslash]
             @ ''"coveredTopics'' @ [backslash] @ ''": '' @ [backslash] @ ''"none''
             @ [backslash] @ ''", '' @ [backslash] @ ''"missingTopics'' @ [backslash]
             @ ''": ['' @ [backslash] @ ''"y'' @ [backslash] @ ''"]}"}}]}''))\<rparr>
      ''What is a list?'' ''A sequence.'' [''x'', ''y'']
      \<lparr>clock = 5000, lastRequestTime = 0, requests = []\<rparr>)
     = Inr (JObj [(''score'', JNum 7), (''feedback'', JStr ''ok''),
                  (''coveredTopics'', JArr []), (''missingTopics'', JArr [JStr ''y''])])
   \<and> fst (analyzeResponse
      \<lparr>GROQ_API_KEY = Some ''key'', timerLag = 0, latency = 120,
        remote = (\<lambda>p. HttpResponse 200 ''OK''
            (''{"choices":[{"message":{"content":"{'' @ [backslash] @ ''"score''
             @ [backslash] @ ''": 7, '' @ [backslash] @ ''"feedback'' @ [backslash]
             @ ''": '' @ [backslash] @ ''"ok'' @ [backslash] @ ''", '' @ [backslash]
             @ ''"missingTopics'' @ [backslash] @ ''": ['' @ [backslash] @ ''"y''
             @ [backslash] @ ''"]}"}}]}''))\<rparr>
      ''What is a list?'' ''A sequence.'' [''x'', ''y'']
      \<lparr>clock = 5000, lastRequestTime = 0, requests = []\<rparr>)
     = Inl (Error (''Failed to parse response as JSON: ''
              @ ''Missing required fields after cleaning: coveredTopics''
              @ [newline] @ ''Response: ''
              @ ''{"score": 7, "feedback": "ok", "missingTopics": ["y"]}''))\<close>
proof -
  let ?q = "''What is a list?''" and ?r = "''A sequence.''" and ?ts = "[''x'', ''y'']"
  let ?w = "\<lparr>clock = 5000, lastRequestTime = 0, requests = []\<rparr>"
  let ?c1 = \<open>''{"score": 7, "feedback": "ok", "coveredTopics": "none", "missingTopics": ["y"]}''\<close>
  let ?b1 = \<open>''{"choices":[{"message":{"content":"{'' @ [backslash] @ ''"score''
      @ [backslash] @ ''": 7, '' @ [backslash] @ ''"feedback'' @ [backslash]
      @ ''": '' @ [backslash] @ ''"ok'' @ [backslash] @ ''", '' @ [backslash]
      @ ''"coveredTopics'' @ [backslash] @ ''": '' @ [backslash] @ ''"none''
      @ [backslash] @ ''", '' @ [backslash] @ ''"missingTopics'' @ [backslash]
      @ ''": ['' @ [backslash] @ ''"y'' @ [backslash] @ ''"]}"}}]}''\<close>
  let ?e1 = "\<lparr>GROQ_API_KEY = Some ''key'', timerLag = 0, latency = 120,
              remote = (\<lambda>p. HttpResponse 200 ''OK'' ?b1)\<rparr>"
  let ?ms1 = "[(''score'', JNum 7), (''feedback'', JStr ''ok''),
               (''coveredTopics'', JStr ''none''), (''missingTopics'', JArr [JStr ''y''])]"
  let ?c2 = \<open>''{"score": 7, "feedback": "ok", "missingTopics": ["y"]}''\<close>
  let ?b2 = \<open>''{"choices":[{"message":{"content":"{'' @ [backslash] @ ''"score''
      @ [backslash] @ ''": 7, '' @ [backslash] @ ''"feedback'' @ [backslash]
      @ ''": '' @ [backslash] @ ''"ok'' @ [backslash] @ ''", '' @ [backslash]
      @ ''"missingTopics'' @ [backslash] @ ''": ['' @ [backslash] @ ''"y''
      @ [backslash] @ ''"]}"}}]}''\<close>
  let ?e2 = "\<lparr>GROQ_API_KEY = Some ''key'', timerLag = 0, latency = 120,
              remote = (\<lambda>p. HttpResponse 200 ''OK'' ?b2)\<rparr>"
  let ?ms2 = "[(''score'', JNum 7), (''feedback'', JStr ''ok''),
               (''missingTopics'', JArr [JStr ''y''])]"
  have k1: "\<not> keyMissing ?e1" and k2: "\<not> keyMissing ?e2"
    by (simp_all add: keyMissing_def)
  have r1: "remote ?e1 (analysisPrompt ?q ?r ?ts) = HttpResponse 200 ''OK'' ?b1"
    and r2: "remote ?e2 (analysisPrompt ?q ?r ?ts) = HttpResponse 200 ''OK'' ?b2"
    by simp_all
  have ok: "responseOk 200" by (simp add: responseOk_def)
  have p1: "JSON_parse ?b1
      = Inr (JObj [(''choices'', JArr [JObj [(''message'', JObj [(''content'', JStr ?c1)])]])])"
    by code_simp
  have p2: "JSON_parse ?b2
      = Inr (JObj [(''choices'', JArr [JObj [(''message'', JObj [(''content'', JStr ?c2)])]])])"
    by code_simp
  have c1: "completionContent
      (JObj [(''choices'', JArr [JObj [(''message'', JObj [(''content'', JStr ?c1)])]])])
      = Some (JStr ?c1)"
    by code_simp
  have c2: "completionContent
      (JObj [(''choices'', JArr [JObj [(''message'', JObj [(''content'', JStr ?c2)])]])])
      = Some (JStr ?c2)"
    by code_simp
  have m1: "jsonMatch ?c1 = Some ?c1" by code_simp
  have m2: "jsonMatch ?c2 = Some ?c2" by code_simp
  have o1: "JSON_parse ?c1 = Inr (JObj ?ms1)" by code_simp
  have o2: "JSON_parse ?c2 = Inr (JObj ?ms2)" by code_simp
  have s1: "set analysisFields \<subseteq> fst ` set ?ms1" by (simp add: analysisFields_def)
  have s2: "\<not> set analysisFields \<subseteq> fst ` set ?ms2" by (simp add: analysisFields_def)
  have f1: "finishAnalysis (JObj ?ms1)
      = JObj [(''score'', JNum 7), (''feedback'', JStr ''ok''),
              (''coveredTopics'', JArr []), (''missingTopics'', JArr [JStr ''y''])]"
    by code_simp
  have i2: "repair ?c2 = ?c2" by code_simp
  have j2: "join '', '' (filter (\<lambda>f. f \<notin> fst ` set ?ms2) analysisFields) = ''coveredTopics''"
    by (simp add: analysisFields_def)
  from topics_from_completion [OF k1 r1 ok p1 c1 m1 o1, of ?w, THEN conjunct1] s1 f1
  have a: "fst (analyzeResponse ?e1 ?q ?r ?ts ?w)
      = Inr (JObj [(''score'', JNum 7), (''feedback'', JStr ''ok''),
              (''coveredTopics'', JArr []), (''missingTopics'', JArr [JStr ''y''])])"
    by simp
  from topics_from_completion
         [OF k2 r2 ok p2 c2 m2 o2, of ?w, THEN conjunct2, THEN conjunct2, THEN conjunct2,
          THEN mp, OF conjI [OF s2 i2]] j2
  have b: "fst (analyzeResponse ?e2 ?q ?r ?ts ?w)
      = Inl (Error (''Failed to parse response as JSON: ''
              @ ''Missing required fields after cleaning: coveredTopics''
              @ [newline] @ ''Response: '' @ ?c2))"
    by simp
  from a b show ?thesis by (rule conjI)
qed

text \<open>
  The second attempt can succeed where the first found a field missing. The object
  below has no \<open>coveredTopics\<close> but a string with the pieces of one; the repairs quote
  the keys in the string and turn its single quotes into double quotes, and the repaired
  text is an object with the field.
\<close>

lemma omitted_topics_repaired:
  \<open>fst (analyzeResponse
      \<lparr>GROQ_API_KEY = Some ''key'', timerLag = 0, latency = 120,
        remote = (\<lambda>p. HttpResponse 200 ''OK''
            (''{"choices":[{"message":{"content":"{'' @ [backslash] @ ''"score''
             @ [backslash] @ ''":1,'' @ [backslash] @ ''"feedback'' @ [backslash] @ ''":''
             @ [backslash] @ ''"a:',coveredTopics:[],x:'y'' @ [backslash] @ ''",''
             @ [backslash] @ ''"missingTopics'' @ [backslash] @ ''":[]}"}}]}''))\<rparr>
      ''What is a list?'' ''A sequence.'' [''x'', ''y'']
      \<lparr>clock = 5000, lastRequestTime = 0, requests = []\<rparr>)
     = Inr (JObj [(''score'', JNum 1), (''feedback'', JStr ''a:''),
                  (''coveredTopics'', JArr []), (''x'', JStr ''y''),
                  (''missingTopics'', JArr [])])\<close>
  by code_simp

subsection \<open>The response parser\<close>

lemma jsonMatch_span:
  assumes "jsonMatch s = Some m"
  shows "\<exists>pre post. s = pre @ m @ post \<and> CHR ''{'' \<notin> set pre \<and> CHR ''}'' \<notin> set post
           \<and> hd m = CHR ''{'' \<and> last m = CHR ''}''"
proof -
  let ?P = "\<lambda>c. c \<noteq> CHR ''{''" and ?Q = "\<lambda>c. c \<noteq> CHR ''}''"
  from assms obtain b u where d: "dropWhile ?P s = b # u" and in_u: "CHR ''}'' \<in> set u"
    and m: "m = b # rev (dropWhile ?Q (rev u))"
    by (auto simp: jsonMatch_def split: list.splits if_splits)
  from d have s: "s = takeWhile ?P s @ b # u" and b: "b = CHR ''{''"
    by (auto simp: dropWhile_eq_Cons_conv)
  have pre: "CHR ''{'' \<notin> set (takeWhile ?P s)"
    by (auto dest: set_takeWhileD)
  from in_u have "dropWhile ?Q (rev u) \<noteq> []" by auto
  then obtain y ys where dq: "dropWhile ?Q (rev u) = y # ys"
    by (cases "dropWhile ?Q (rev u)") auto
  then have ru: "rev u = takeWhile ?Q (rev u) @ y # ys" and y: "y = CHR ''}''"
    by (auto simp: dropWhile_eq_Cons_conv)
  from ru have "rev (rev u) = rev (takeWhile ?Q (rev u) @ y # ys)" by simp
  then have u: "u = rev ys @ [y] @ rev (takeWhile ?Q (rev u))" by simp
  have post: "CHR ''}'' \<notin> set (rev (takeWhile ?Q (rev u)))"
    by (auto dest: set_takeWhileD)
  from m dq have m': "m = b # rev ys @ [y]" by simp
  have "s = takeWhile ?P s @ m @ rev (takeWhile ?Q (rev u))"
    using s u m' by simp
  with pre post m' b y show ?thesis by (intro exI [of _ "takeWhile ?P s"] exI [of _ "rev (takeWhile ?Q (rev u))"]) simp
qed

lemma jsonMatch_embedded:
  assumes "obj \<noteq> []" and "hd obj = CHR ''{''" and "last obj = CHR ''}''"
    and "CHR ''{'' \<notin> set pre" and "CHR ''}'' \<notin> set post"
  shows "jsonMatch (pre @ obj @ post) = Some obj"
proof -
  let ?P = "\<lambda>c. c \<noteq> CHR ''{''" and ?Q = "\<lambda>c. c \<noteq> CHR ''}''"
  from assms(1,2) obtain t where obj: "obj = CHR ''{'' # t" by (cases obj) auto
  with assms(3) have t: "t \<noteq> []" "last t = CHR ''}''" by (auto split: if_splits)
  then obtain t' where t': "t = t' @ [CHR ''}'']"
    by (metis append_butlast_last_id)
  from assms(4) have "dropWhile ?P (pre @ obj @ post) = dropWhile ?P (obj @ post)"
    by (intro dropWhile_append2) auto
  also have "\<dots> = CHR ''{'' # t @ post" by (simp add: obj)
  finally have d: "dropWhile ?P (pre @ obj @ post) = CHR ''{'' # t @ post" .
  have in_u: "CHR ''}'' \<in> set (t @ post)" using t' by simp
  have "rev (t @ post) = rev post @ CHR ''}'' # rev t'" by (simp add: t')
  moreover from assms(5) have "dropWhile ?Q (rev post @ CHR ''}'' # rev t') = CHR ''}'' # rev t'"
    by (subst dropWhile_append2) auto
  ultimately have "rev (dropWhile ?Q (rev (t @ post))) = t" by (simp add: t')
  with d in_u show ?thesis by (simp add: jsonMatch_def obj)
qed


lemma parseJsonResponse_first_attempt:
  assumes "jsonMatch s = Some cleaned" and "JSON_parse cleaned = Inr (JObj ms)"
    and "set req \<subseteq> fst ` set ms"
  shows "parseJsonResponse (JStr s) req = Inr (JObj ms)"
proof -
  from assms(1) have "s \<noteq> []" by (auto simp: jsonMatch_def)
  moreover from assms(3) have "missingOf req (JObj ms) = Inr []"
    by (auto simp: missingOf_obj filter_empty_conv)
  ultimately show ?thesis using assms(1,2)
    by (simp add: parseJsonResponse_def parseAndCheck_def)
qed

text \<open>
  C1, as the claim states it, fails: the prose after the object has braces of its own.
  The match runs from the first \<open>{\<close> to the last \<open>}\<close> of the whole text, so it takes in
  the prose up to its last \<open>}\<close>; this is no JSON, the repairs do not change it, and
  \<open>parseJsonResponse\<close> throws although the embedded object is valid and has the
  required field.
\<close>

theorem braces_in_prose_break_parse:
  \<open>JSON_parse ''{"a":1}'' = Inr (JObj [(''a'', JNum 1)])
   \<and> jsonMatch (''The object '' @ ''{"a":1}'' @ '' has {braces}.'')
       = Some ''{"a":1} has {braces}''
   \<and> isl (parseJsonResponse (JStr (''The object '' @ ''{"a":1}'' @ '' has {braces}.''))
           [''a''])\<close>
  by code_simp

text \<open>
  C1, amended. In every text the match of \<open>parseJsonResponse\<close> is the span from the
  first \<open>{\<close> to the last \<open>}\<close>. When the prose in front of an embedded object has no
  \<open>{\<close> and the prose behind it has no \<open>}\<close>, the span is the object: its text, from its
  opening to its closing brace, is parsed at the first attempt, and the result is the
  parsed object, provided that it has the required fields.
\<close>

theorem parseJsonResponse_embedded:
  "(jsonMatch s = Some m \<longrightarrow>
      (\<exists>pre' post'. s = pre' @ m @ post' \<and> CHR ''{'' \<notin> set pre' \<and> CHR ''}'' \<notin> set post'
         \<and> hd m = CHR ''{'' \<and> last m = CHR ''}''))
   \<and> (obj \<noteq> [] \<and> hd obj = CHR ''{'' \<and> last obj = CHR ''}''
        \<and> JSON_parse obj = Inr (JObj ms) \<and> set req \<subseteq> fst ` set ms
        \<and> CHR ''{'' \<notin> set pre \<and> CHR ''}'' \<notin> set post \<longrightarrow>
      jsonMatch (pre @ obj @ post) = Some obj
      \<and> parseJsonResponse (JStr (pre @ obj @ post)) req = Inr (JObj ms))"
proof (intro conjI impI)
  assume "jsonMatch s = Some m"
  then show "\<exists>pre' post'. s = pre' @ m @ post' \<and> CHR ''{'' \<notin> set pre'
      \<and> CHR ''}'' \<notin> set post' \<and> hd m = CHR ''{'' \<and> last m = CHR ''}''"
    by (rule jsonMatch_span)
next
  assume a: "obj \<noteq> [] \<and> hd obj = CHR ''{'' \<and> last obj = CHR ''}''
        \<and> JSON_parse obj = Inr (JObj ms) \<and> set req \<subseteq> fst ` set ms
        \<and> CHR ''{'' \<notin> set pre \<and> CHR ''}'' \<notin> set post"
  then show j: "jsonMatch (pre @ obj @ post) = Some obj"
    by (intro jsonMatch_embedded) simp_all
  from a show "parseJsonResponse (JStr (pre @ obj @ post)) req = Inr (JObj ms)"
    by (intro parseJsonResponse_first_attempt [OF j]) simp_all
qed

theorem parseJsonResponse_embedded_witness:
  \<open>jsonMatch ''Here it is: {"a":1} Done.'' = Some ''{"a":1}''
   \<and> parseJsonResponse (JStr ''Here it is: {"a":1} Done.'') [''a'']
       = Inr (JObj [(''a'', JNum 1)])\<close>
proof -
  have p: \<open>JSON_parse ''{"a":1}'' = Inr (JObj [(''a'', JNum 1)])\<close> by code_simp
  have j: \<open>jsonMatch ''Here it is: {"a":1} Done.'' = Some ''{"a":1}''\<close> by code_simp
  from parseJsonResponse_embedded
         [of \<open>''Here it is: {"a":1} Done.''\<close> \<open>''{"a":1}''\<close> \<open>''{"a":1}''\<close>
             "[(''a'', JNum 1)]" "[''a'']" "''Here it is: ''" "'' Done.''"] p j
  show ?thesis by simp
qed

subsection \<open>The repairs\<close>













end
